theory Spec2Isabelle
  imports Complex_Main "HOL-Library.Multiset"
begin

section \<open>Python values\<close>

text \<open>
  A Python \<open>str\<close> is a sequence of Unicode code points; \<open>len\<close>, slicing and the
  character-range test of the responder count code points, so a string is a list of
  naturals. \<open>ustr\<close> reads an ASCII literal.
\<close>

type_synonym ustring = "nat list"

definition ustr :: "string \<Rightarrow> ustring" where
  "ustr s = map of_char s"

text \<open>The values \<open>json.loads\<close> produces, and the values of a metadata dictionary.\<close>

datatype json =
    JNull
  | JBool bool
  | JInt int
  | JFloat real
  | JStr ustring
  | JList "json list"
  | JObj "(ustring \<times> json) list"

text \<open>
  Exceptions (subclasses of \<open>Exception\<close> only) carry their class and the text that
  \<open>str(e)\<close> gives. \<open>LibraryError\<close> names a class raised inside a client library
  (httpx, asyncpg, openai).
\<close>

datatype exn_class =
    JSONDecodeError
  | ParseError
  | ValidationError
  | ValueError
  | TypeError
  | AttributeError
  | IndexError
  | KeyError
  | LibraryError ustring

datatype exn = Exn exn_class ustring


fun str_exn :: "exn \<Rightarrow> ustring" where
  "str_exn (Exn c m) = m"

text \<open>\<open>xs[:n]\<close>: a negative bound counts from the end.\<close>

definition py_slice_to :: "'a list \<Rightarrow> int \<Rightarrow> 'a list" where
  "py_slice_to xs n =
     (if 0 \<le> n then take (nat n) xs else take (nat (int (length xs) + n)) xs)"

text \<open>\<open>sep.join(parts)\<close>.\<close>

fun py_join :: "ustring \<Rightarrow> ustring list \<Rightarrow> ustring" where
  "py_join sep [] = []"
| "py_join sep [x] = x"
| "py_join sep (x # y # ys) = x @ sep @ py_join sep (y # ys)"

text \<open>\<open>str(n)\<close> for an integer.\<close>

fun str_nat :: "nat \<Rightarrow> ustring" where
  "str_nat n = (if n < 10 then [48 + n] else str_nat (n div 10) @ [48 + n mod 10])"

declare str_nat.simps [simp del]

definition str_int :: "int \<Rightarrow> ustring" where
  "str_int i = (if i < 0 then 45 # str_nat (nat (- i)) else str_nat (nat i))"

text \<open>The code points for which \<open>str.isspace\<close> holds.\<close>

definition py_isspace :: "nat \<Rightarrow> bool" where
  "py_isspace c \<longleftrightarrow>
     (9 \<le> c \<and> c \<le> 13) \<or> (28 \<le> c \<and> c \<le> 32) \<or> c = 133 \<or> c = 160 \<or> c = 5760
     \<or> (8192 \<le> c \<and> c \<le> 8202) \<or> c = 8232 \<or> c = 8233 \<or> c = 8239 \<or> c = 8287 \<or> c = 12288"

text \<open>\<open>s.strip()\<close>.\<close>

definition py_strip :: "ustring \<Rightarrow> ustring" where
  "py_strip s = rev (dropWhile py_isspace (rev (dropWhile py_isspace s)))"

text \<open>\<open>s.split()\<close>: the maximal runs of characters that are not white space.\<close>

fun split_ws :: "ustring \<Rightarrow> ustring \<Rightarrow> ustring list" where
  "split_ws acc [] = (if acc = [] then [] else [rev acc])"
| "split_ws acc (c # cs) =
     (if py_isspace c then (if acc = [] then split_ws [] cs else rev acc # split_ws [] cs)
      else split_ws (c # acc) cs)"

definition py_split_ws :: "ustring \<Rightarrow> ustring list" where
  "py_split_ws s = split_ws [] s"

text \<open>\<open>s.split(c)\<close> for a separator of one character: never the empty list.\<close>

fun split_char :: "nat \<Rightarrow> ustring \<Rightarrow> ustring \<Rightarrow> ustring list" where
  "split_char sep acc [] = [rev acc]"
| "split_char sep acc (c # cs) =
     (if c = sep then rev acc # split_char sep [] cs else split_char sep (c # acc) cs)"



section \<open>Floating point\<close>

text \<open>
  A Python \<open>float\<close>, like a \<open>double precision\<close> value of the store, is an IEEE 754
  double. The model keeps a float as the real number it denotes and rounds where the
  program computes. \<open>double x\<close> is the double nearest to \<open>x\<close>: 53 significant bits,
  the exponent of the leading bit not below \<open>-1022\<close> (smaller numbers keep the spacing
  \<open>2 powi -1074\<close>), a tie going to the even significand. Overflow to infinity is not
  modelled: every magnitude computed here is far below \<open>2 ^ 1024\<close>.
\<close>

definition round_half_even :: "real \<Rightarrow> int" where
  "round_half_even y =
     (let n = \<lfloor>y\<rfloor>; d = y - of_int n
      in if d < 1/2 then n else if 1/2 < d then n + 1 else if even n then n else n + 1)"

definition double_exponent :: "real \<Rightarrow> int" where
  "double_exponent x = max \<lfloor>log 2 \<bar>x\<bar>\<rfloor> (- 1022) - 52"

definition double :: "real \<Rightarrow> real" where
  "double x =
     (if x = 0 then 0
      else of_int (round_half_even (x / 2 powi double_exponent x)) * 2 powi double_exponent x)"

text \<open>
  \<open>a * b\<close>, \<open>a + b\<close> and \<open>a - b\<close> on floats: the exact result, rounded. The operands are
  rounded first, which changes nothing for a value that is a double and makes a decimal
  literal of the program, such as \<open>0.7\<close>, stand for the double nearest to it.
\<close>

definition fmul :: "real \<Rightarrow> real \<Rightarrow> real" where
  "fmul a b = double (double a * double b)"

definition fadd :: "real \<Rightarrow> real \<Rightarrow> real" where
  "fadd a b = double (double a + double b)"

definition fsub :: "real \<Rightarrow> real \<Rightarrow> real" where
  "fsub a b = double (double a - double b)"

section \<open>Data model (app/models/schemas.py)\<close>

datatype SourceType = EXPERT_INSIGHT | ARXIV_PAPER | HUGGINGFACE | MANUAL

fun SourceType_value :: "SourceType \<Rightarrow> ustring" where
  "SourceType_value EXPERT_INSIGHT = ustr ''expert_insight''"
| "SourceType_value ARXIV_PAPER = ustr ''arxiv_paper''"
| "SourceType_value HUGGINGFACE = ustr ''huggingface''"
| "SourceType_value MANUAL = ustr ''manual''"

text \<open>\<open>SourceType(value)\<close>: the member with that value, or \<open>ValueError\<close>.\<close>

definition SourceType_of_value :: "ustring \<Rightarrow> SourceType option" where
  "SourceType_of_value v =
     (if v = ustr ''expert_insight'' then Some EXPERT_INSIGHT
      else if v = ustr ''arxiv_paper'' then Some ARXIV_PAPER
      else if v = ustr ''huggingface'' then Some HUGGINGFACE
      else if v = ustr ''manual'' then Some MANUAL
      else None)"

datatype SearchPath = CACHE | VECTOR_DB | MCP | NOT_FOUND

text \<open>
  A \<open>datetime\<close>: the wall-clock reading in microseconds since the epoch, and the UTC
  offset of its \<open>tzinfo\<close> in microseconds (\<open>None\<close> for a naive value).
\<close>

record datetime =
  wall :: int
  tzinfo :: "int option"

record SourceInfo =
  si_source_type :: SourceType
  si_title :: "ustring option"
  si_url :: "ustring option"
  si_author :: "ustring option"
  si_relevance_score :: real

record KnowledgeItem =
  ki_id :: int
  ki_content :: ustring
  ki_source_type :: SourceType
  ki_source_url :: "ustring option"
  ki_source_title :: "ustring option"
  ki_source_author :: "ustring option"
  ki_metadata :: "(ustring \<times> json) list"
  ki_similarity :: real
  ki_recency_score :: real
  ki_final_score :: real
  ki_created_at :: datetime

record MCPSearchResult =
  mr_content :: ustring
  mr_source_type :: SourceType
  mr_source_url :: "ustring option"
  mr_source_title :: "ustring option"
  mr_source_author :: "ustring option"
  mr_metadata :: "(ustring \<times> json) list"

record CacheEntry =
  ce_id :: int
  ce_query_text :: ustring
  ce_response_text :: ustring
  ce_sources :: "SourceInfo list"
  ce_hit_count :: int
  ce_similarity :: real
  ce_created_at :: datetime


record SearchResponse =
  sr_query :: ustring
  sr_response :: ustring
  sr_sources :: "SourceInfo list"
  sr_search_path :: SearchPath
  sr_processing_time_ms :: real
  sr_keywords :: "ustring list"

record Settings =
  embedding_model :: ustring
  llm_model :: ustring
  cache_similarity_threshold :: real
  vector_search_limit :: int

section \<open>The store, the outside world and effects\<close>

text \<open>
  Modelled from the spec: the schema of the two tables (scripts/init\_db.sql is not part
  of the source). A cache entry and a knowledge document have the columns the statements
  of the services read and write; \<open>id\<close> comes from a sequence, \<open>hit_count\<close> starts at 0
  and \<open>created_at\<close> is the time of insertion. Embedding columns hold the text form
  the services send.
\<close>

record cache_row =
  cr_id :: int
  cr_query_text :: ustring
  cr_query_embedding :: ustring
  cr_response_text :: ustring
  cr_sources :: "ustring option"
  cr_hit_count :: int
  cr_created_at :: datetime

record knowledge_row =
  kb_id :: int
  kb_content :: ustring
  kb_content_embedding :: ustring
  kb_source_type :: ustring
  kb_source_url :: "ustring option"
  kb_source_title :: "ustring option"
  kb_source_author :: "ustring option"
  kb_metadata :: "ustring option"
  kb_created_at :: datetime

text \<open>The statements the services send, with their arguments.\<close>

datatype sql =
    KnowledgeSelect ustring int
  | KnowledgeInsert ustring ustring ustring "ustring option" "ustring option"
      "ustring option" ustring
  | KnowledgeCount
  | CacheSelect ustring real
  | CacheUpdateHitCount int
  | CacheInsert ustring ustring ustring ustring
  | CacheStats
  | CacheDelete

datatype log_level = DEBUG | INFO | WARNING | ERROR

record chat_request =
  cq_model :: ustring
  cq_system :: ustring
  cq_user :: ustring
  cq_temperature :: real
  cq_max_tokens :: int

text \<open>
  Every call that leaves the process is an event of the trace: embedding and chat calls,
  HTTP requests, taking a database connection, a statement; log records are events too.
\<close>

datatype event =
    EmbeddingsCreate ustring ustring
  | ChatCreate chat_request
  | HttpGet ustring "(ustring \<times> json) list"
  | DbAcquire
  | DbExecute sql
  | Log log_level ustring

record world =
  semantic_cache :: "cache_row list"
  knowledge_base :: "knowledge_row list"
  cache_id_seq :: int
  knowledge_id_seq :: int
  clock_reads :: nat
  trace :: "event list"

record http_response =
  hr_status_code :: int
  hr_text :: ustring

text \<open>An element tree as \<open>xml.etree.ElementTree\<close> builds it (tags in Clark notation).\<close>

datatype xml =
  Element (elem_tag: ustring) (elem_attrib: "(ustring \<times> ustring) list")
    (elem_text: "ustring option") (elem_children: "xml list")

text \<open>
  What the program does not decide: the answers of the embedding provider, the text
  generator and the HTTP servers, whether a database call fails, the clocks, the
  distance operator of the index, and the library functions for JSON, XML, URL quoting,
  lower-casing, the text form of floats and containers, and the validation of a
  \<open>SourceInfo\<close> read back from JSON. Answers are indexed by the number of events so
  far (clock readings by the number of readings), so the same request may succeed once
  and fail later.
\<close>

record env =
  settings :: Settings
  embeddings_create :: "nat \<Rightarrow> ustring \<Rightarrow> ustring \<Rightarrow> exn + (real list) list"
  chat_create :: "nat \<Rightarrow> chat_request \<Rightarrow> exn + (ustring option) list"
  http_get :: "nat \<Rightarrow> ustring \<Rightarrow> (ustring \<times> json) list \<Rightarrow> exn + http_response"
  raise_for_status :: "http_response \<Rightarrow> exn option"
  db_fault :: "nat \<Rightarrow> exn option"
  utc_now :: "nat \<Rightarrow> int"
  cosine_distance :: "ustring \<Rightarrow> ustring \<Rightarrow> real"
  json_loads :: "ustring \<Rightarrow> ustring + json"
  json_dumps :: "json \<Rightarrow> ustring"
  xml_fromstring :: "ustring \<Rightarrow> ustring + xml"
  url_quote :: "ustring \<Rightarrow> ustring"
  str_lower :: "ustring \<Rightarrow> ustring"
  str_value :: "json \<Rightarrow> ustring"
  format_4f :: "real \<Rightarrow> ustring"
  error_text :: "exn_class \<Rightarrow> ustring"
  validate_SourceInfo :: "(ustring \<times> json) list \<Rightarrow> ustring + SourceInfo"
  db_now :: "nat \<Rightarrow> datetime"
  time_time :: "nat \<Rightarrow> real"

text \<open>A computation takes the world and gives a value or a raised exception, and the
  world after it.\<close>

type_synonym 'a io = "world \<Rightarrow> (exn + 'a) \<times> world"

definition io_return :: "'a \<Rightarrow> 'a io" where
  "io_return x = (\<lambda>w. (Inr x, w))"

definition io_raise :: "exn \<Rightarrow> 'a io" where
  "io_raise e = (\<lambda>w. (Inl e, w))"

definition io_bind :: "'a io \<Rightarrow> ('a \<Rightarrow> 'b io) \<Rightarrow> 'b io" where
  "io_bind m f = (\<lambda>w. case m w of (Inl e, w') \<Rightarrow> (Inl e, w') | (Inr x, w') \<Rightarrow> f x w')"

text \<open>\<open>try: m except Exception as e: h e\<close>.\<close>

definition io_try :: "'a io \<Rightarrow> (exn \<Rightarrow> 'a io) \<Rightarrow> 'a io" where
  "io_try m h = (\<lambda>w. case m w of (Inl e, w') \<Rightarrow> h e w' | (Inr x, w') \<Rightarrow> (Inr x, w'))"

definition io_lift :: "exn + 'a \<Rightarrow> 'a io" where
  "io_lift r = (\<lambda>w. (r, w))"

definition external :: "event \<Rightarrow> (nat \<Rightarrow> exn + 'a) \<Rightarrow> 'a io" where
  "external ev answer = (\<lambda>w. (answer (length (trace w)), w\<lparr>trace := trace w @ [ev]\<rparr>))"

definition logger :: "log_level \<Rightarrow> ustring \<Rightarrow> unit io" where
  "logger lvl msg = (\<lambda>w. (Inr (), w\<lparr>trace := trace w @ [Log lvl msg]\<rparr>))"

definition py_error :: "env \<Rightarrow> exn_class \<Rightarrow> exn" where
  "py_error env c = Exn c (error_text env c)"

section \<open>Embeddings (app/core/embeddings.py)\<close>

text \<open>\<open>get_embedding\<close>: one call to the provider; \<open>response.data[0].embedding\<close>.\<close>

definition get_embedding :: "env \<Rightarrow> ustring \<Rightarrow> (real list) io" where
  "get_embedding env text =
     io_bind (external (EmbeddingsCreate (embedding_model (settings env)) text)
                (\<lambda>t. embeddings_create env t (embedding_model (settings env)) text))
       (\<lambda>data.
          case data of
            [] \<Rightarrow> io_raise (py_error env IndexError)
          | embedding # _ \<Rightarrow>
              io_bind (logger DEBUG
                  (ustr ''Generated embedding for text (length='' @ str_nat (length text)
                     @ ustr '')''))
                (\<lambda>_. io_return embedding))"

definition embedding_to_pgvector :: "env \<Rightarrow> real list \<Rightarrow> ustring" where
  "embedding_to_pgvector env embedding =
     ustr ''['' @ py_join (ustr '','') (map (\<lambda>x. str_value env (JFloat x)) embedding) @ ustr '']''"

section \<open>Database access (app/core/database.py)\<close>

text \<open>\<open>async with get_connection() as conn\<close>: taking a connection from the pool may fail.\<close>

definition get_connection :: "env \<Rightarrow> unit io" where
  "get_connection env =
     external DbAcquire (\<lambda>t. case db_fault env t of Some e \<Rightarrow> Inl e | None \<Rightarrow> Inr ())"

text \<open>Sending a statement: the call is recorded, and may fail before it has any effect.\<close>

definition db_execute :: "env \<Rightarrow> sql \<Rightarrow> unit io" where
  "db_execute env s =
     external (DbExecute s) (\<lambda>t. case db_fault env t of Some e \<Rightarrow> Inl e | None \<Rightarrow> Inr ())"

section \<open>Knowledge tier (app/services/vector\_store.py)\<close>

text \<open>The row of the search statement: the selected columns and the similarity.\<close>

record knowledge_record =
  row_id :: int
  row_content :: ustring
  row_source_type :: ustring
  row_source_url :: "ustring option"
  row_source_title :: "ustring option"
  row_source_author :: "ustring option"
  row_metadata :: "ustring option"
  row_created_at :: datetime
  row_similarity :: real

definition knowledge_record_of :: "env \<Rightarrow> ustring \<Rightarrow> knowledge_row \<Rightarrow> knowledge_record" where
  "knowledge_record_of env embedding_str r =
     \<lparr>row_id = kb_id r, row_content = kb_content r, row_source_type = kb_source_type r,
      row_source_url = kb_source_url r, row_source_title = kb_source_title r,
      row_source_author = kb_source_author r, row_metadata = kb_metadata r,
      row_created_at = kb_created_at r,
      row_similarity = fsub 1 (cosine_distance env (kb_content_embedding r) embedding_str)\<rparr>"

text \<open>
  \<open>SELECT ..., 1 - (content_embedding <=> $1::vector) as similarity FROM knowledge_base
  ORDER BY similarity DESC LIMIT $2\<close>. The order among equal similarities is the
  table's; the store rejects a negative \<open>LIMIT\<close>.
\<close>

definition knowledge_candidates ::
  "env \<Rightarrow> ustring \<Rightarrow> int \<Rightarrow> knowledge_row list \<Rightarrow> knowledge_record list" where
  "knowledge_candidates env embedding_str k tbl =
     take (nat k)
       (sort_key (\<lambda>r. - row_similarity r) (map (knowledge_record_of env embedding_str) tbl))"

definition knowledge_select :: "env \<Rightarrow> ustring \<Rightarrow> int \<Rightarrow> (knowledge_record list) io" where
  "knowledge_select env embedding_str k =
     io_bind (db_execute env (KnowledgeSelect embedding_str k))
       (\<lambda>_. if k < 0
             then io_raise (Exn (LibraryError (ustr ''asyncpg.PostgresError''))
                                (ustr ''LIMIT must not be negative''))
             else (\<lambda>w. (Inr (knowledge_candidates env embedding_str k (knowledge_base w)), w)))"

text \<open>\<open>datetime.now(timezone.utc)\<close>: each call reads the clock once.\<close>

definition datetime_now_utc :: "env \<Rightarrow> datetime io" where
  "datetime_now_utc env =
     (\<lambda>w. (Inr \<lparr>wall = utc_now env (clock_reads w), tzinfo = Some 0\<rparr>,
            w\<lparr>clock_reads := Suc (clock_reads w)\<rparr>))"

text \<open>
  \<open>a - b\<close> on datetimes, in microseconds: two aware values are compared as instants,
  two naive ones by their wall clocks, and mixing them raises \<open>TypeError\<close>.
\<close>

definition datetime_sub :: "env \<Rightarrow> datetime \<Rightarrow> datetime \<Rightarrow> exn + int" where
  "datetime_sub env a b =
     (case (tzinfo a, tzinfo b) of
        (Some oa, Some ob) \<Rightarrow> Inr ((wall a - oa) - (wall b - ob))
      | (None, None) \<Rightarrow> Inr (wall a - wall b)
      | _ \<Rightarrow> Inl (py_error env TypeError))"

text \<open>\<open>timedelta.days\<close>: whole days, rounded towards minus infinity.\<close>

definition timedelta_days :: "int \<Rightarrow> int" where
  "timedelta_days td = td div 86400000000"

definition calculate_recency_score :: "env \<Rightarrow> datetime \<Rightarrow> real io" where
  "calculate_recency_score env created_at =
     io_bind (datetime_now_utc env) (\<lambda>now.
       let created_at' = (if tzinfo created_at = None then created_at\<lparr>tzinfo := Some 0\<rparr>
                          else created_at)
       in io_bind (io_lift (datetime_sub env now created_at')) (\<lambda>delta.
            let age_days = timedelta_days delta
            in if age_days < 7 then io_return 1.0
               else if age_days < 30 then io_return 0.7
               else io_return 0.5))"

text \<open>\<open>limit or self.settings.vector_search_limit\<close>: \<open>None\<close> and 0 are both falsy.\<close>

definition limit_or_default :: "env \<Rightarrow> int option \<Rightarrow> int" where
  "limit_or_default env limit =
     (case limit of
        None \<Rightarrow> vector_search_limit (settings env)
      | Some l \<Rightarrow> if l = 0 then vector_search_limit (settings env) else l)"

text \<open>\<open>similarity * 0.7 + recency * 0.3\<close>, the expression of the search loop: two float
  products and a float sum.\<close>

definition final_score_of :: "real \<Rightarrow> real \<Rightarrow> real" where
  "final_score_of similarity recency = fadd (fmul similarity 0.7) (fmul recency 0.3)"

text \<open>
  \<open>json.loads(row["metadata"] or "{}")\<close>, validated as the \<open>Dict[str, Any]\<close> field of
  the item: a value that is not an object is refused.
\<close>

definition load_metadata :: "env \<Rightarrow> ustring option \<Rightarrow> exn + (ustring \<times> json) list" where
  "load_metadata env m =
     (case json_loads env (case m of None \<Rightarrow> ustr ''{}'' | Some s \<Rightarrow> if s = [] then ustr ''{}'' else s) of
        Inl msg \<Rightarrow> Inl (Exn JSONDecodeError msg)
      | Inr (JObj kvs) \<Rightarrow> Inr kvs
      | Inr _ \<Rightarrow> Inl (py_error env ValidationError))"

text \<open>The construction of the \<open>KnowledgeItem\<close> of a row, argument by argument.\<close>

definition make_knowledge_item ::
  "env \<Rightarrow> knowledge_record \<Rightarrow> real \<Rightarrow> real \<Rightarrow> real \<Rightarrow> exn + KnowledgeItem" where
  "make_knowledge_item env row similarity recency final_score =
     (case SourceType_of_value (row_source_type row) of
        None \<Rightarrow> Inl (py_error env ValueError)
      | Some st \<Rightarrow>
          (case load_metadata env (row_metadata row) of
             Inl e \<Rightarrow> Inl e
           | Inr md \<Rightarrow>
               Inr \<lparr>ki_id = row_id row, ki_content = row_content row, ki_source_type = st,
                    ki_source_url = row_source_url row, ki_source_title = row_source_title row,
                    ki_source_author = row_source_author row, ki_metadata = md,
                    ki_similarity = similarity, ki_recency_score = recency,
                    ki_final_score = final_score, ki_created_at = row_created_at row\<rparr>))"

text \<open>The loop over the fetched rows: rows below the threshold are skipped.\<close>

fun score_rows :: "env \<Rightarrow> real \<Rightarrow> knowledge_record list \<Rightarrow> (KnowledgeItem list) io" where
  "score_rows env min_similarity [] = io_return []"
| "score_rows env min_similarity (row # rows) =
     (let similarity = row_similarity row
      in if similarity < min_similarity then score_rows env min_similarity rows
         else io_bind (calculate_recency_score env (row_created_at row)) (\<lambda>recency.
              let final_score = final_score_of similarity recency
              in io_bind (io_lift (make_knowledge_item env row similarity recency final_score))
                   (\<lambda>item.
              io_bind (score_rows env min_similarity rows) (\<lambda>items.
              io_return (item # items)))))"

text \<open>\<open>VectorStoreService.search\<close>.\<close>

definition vector_search ::
  "env \<Rightarrow> ustring list \<Rightarrow> int option \<Rightarrow> real \<Rightarrow> (KnowledgeItem list) io" where
  "vector_search env keywords limit min_similarity =
     (if keywords = [] then io_return []
      else
        let limit' = limit_or_default env limit;
            search_text = py_join (ustr '' '') keywords
        in io_bind (get_embedding env search_text) (\<lambda>query_embedding.
           let embedding_str = embedding_to_pgvector env query_embedding
           in io_bind (get_connection env) (\<lambda>_.
              io_bind (knowledge_select env embedding_str (limit' * 2)) (\<lambda>rows.
              io_bind (score_rows env min_similarity rows) (\<lambda>items.
              let sorted_items = sort_key (\<lambda>x. - ki_final_score x) items;
                  results = py_slice_to sorted_items limit'
              in io_bind (logger INFO
                   (ustr ''Vector search found '' @ str_nat (length results)
                      @ ustr '' results (min_sim='' @ str_value env (JFloat min_similarity)
                      @ ustr '') for keywords: '' @ str_value env (JList (map JStr keywords))))
                   (\<lambda>_. io_return results))))))"




section \<open>Cache tier (app/services/semantic\_cache.py)\<close>

text \<open>The row of the cache lookup: the selected columns and the similarity.\<close>

record cache_record =
  rec_id :: int
  rec_query_text :: ustring
  rec_response_text :: ustring
  rec_sources :: "ustring option"
  rec_hit_count :: int
  rec_created_at :: datetime
  rec_similarity :: real

definition cache_record_of :: "env \<Rightarrow> ustring \<Rightarrow> cache_row \<Rightarrow> cache_record" where
  "cache_record_of env embedding_str r =
     \<lparr>rec_id = cr_id r, rec_query_text = cr_query_text r,
      rec_response_text = cr_response_text r, rec_sources = cr_sources r,
      rec_hit_count = cr_hit_count r, rec_created_at = cr_created_at r,
      rec_similarity = fsub 1 (cosine_distance env (cr_query_embedding r) embedding_str)\<rparr>"

text \<open>
  \<open>SELECT ..., 1 - (query_embedding <=> $1::vector) as similarity FROM semantic_cache
  WHERE 1 - (query_embedding <=> $1::vector) >= $2 ORDER BY similarity DESC LIMIT 1\<close>.
\<close>

definition cache_nearest ::
  "env \<Rightarrow> ustring \<Rightarrow> real \<Rightarrow> cache_row list \<Rightarrow> cache_record option" where
  "cache_nearest env embedding_str threshold tbl =
     (case sort_key (\<lambda>r. - rec_similarity r)
             (filter (\<lambda>r. threshold \<le> rec_similarity r)
                (map (cache_record_of env embedding_str) tbl)) of
        [] \<Rightarrow> None
      | r # _ \<Rightarrow> Some r)"

definition cache_fetchrow :: "env \<Rightarrow> ustring \<Rightarrow> real \<Rightarrow> (cache_record option) io" where
  "cache_fetchrow env embedding_str threshold =
     io_bind (db_execute env (CacheSelect embedding_str threshold))
       (\<lambda>_ w. (Inr (cache_nearest env embedding_str threshold (semantic_cache w)), w))"

text \<open>\<open>UPDATE semantic_cache SET hit_count = hit_count + 1 WHERE id = $1\<close>.\<close>

definition increment_hit_count :: "int \<Rightarrow> cache_row list \<Rightarrow> cache_row list" where
  "increment_hit_count i tbl =
     map (\<lambda>r. if cr_id r = i then r\<lparr>cr_hit_count := cr_hit_count r + 1\<rparr> else r) tbl"

definition cache_update_hit_count :: "env \<Rightarrow> int \<Rightarrow> unit io" where
  "cache_update_hit_count env i =
     io_bind (db_execute env (CacheUpdateHitCount i))
       (\<lambda>_ w. (Inr (), w\<lparr>semantic_cache := increment_hit_count i (semantic_cache w)\<rparr>))"

text \<open>
  \<open>[SourceInfo(**s) for s in json.loads(row["sources"] or "[]")]\<close>: the loaded value
  is iterated, and each element must be a mapping that validates.
\<close>

fun source_infos :: "env \<Rightarrow> json list \<Rightarrow> exn + SourceInfo list" where
  "source_infos env [] = Inr []"
| "source_infos env (JObj kvs # ss) =
     (case validate_SourceInfo env kvs of
        Inl msg \<Rightarrow> Inl (Exn ValidationError msg)
      | Inr si \<Rightarrow>
          (case source_infos env ss of Inl e \<Rightarrow> Inl e | Inr sis \<Rightarrow> Inr (si # sis)))"
| "source_infos env (_ # ss) = Inl (py_error env TypeError)"

definition load_sources :: "env \<Rightarrow> ustring option \<Rightarrow> exn + SourceInfo list" where
  "load_sources env s =
     (case json_loads env
             (case s of None \<Rightarrow> ustr ''[]'' | Some t \<Rightarrow> if t = [] then ustr ''[]'' else t) of
        Inl msg \<Rightarrow> Inl (Exn JSONDecodeError msg)
      | Inr (JList xs) \<Rightarrow> source_infos env xs
      | Inr (JObj kvs) \<Rightarrow> if kvs = [] then Inr [] else Inl (py_error env TypeError)
      | Inr (JStr t) \<Rightarrow> if t = [] then Inr [] else Inl (py_error env TypeError)
      | Inr _ \<Rightarrow> Inl (py_error env TypeError))"

text \<open>
  \<open>SemanticCacheService.search\<close>, in the three parts between which the coroutine is
  suspended: the embedding call and the lookup statement; on a row, the update statement
  and the construction of the entry; the choice between the two outcomes.
\<close>

definition cache_lookup :: "env \<Rightarrow> ustring \<Rightarrow> (cache_record option) io" where
  "cache_lookup env query =
     io_bind (get_embedding env query) (\<lambda>query_embedding.
     let embedding_str = embedding_to_pgvector env query_embedding
     in io_bind (get_connection env) (\<lambda>_.
        cache_fetchrow env embedding_str (cache_similarity_threshold (settings env))))"

definition cache_hit :: "env \<Rightarrow> cache_record \<Rightarrow> CacheEntry io" where
  "cache_hit env row =
     io_bind (cache_update_hit_count env (rec_id row)) (\<lambda>_.
     io_bind (io_lift (load_sources env (rec_sources row))) (\<lambda>sources.
     let entry =
           \<lparr>ce_id = rec_id row, ce_query_text = rec_query_text row,
            ce_response_text = rec_response_text row, ce_sources = sources,
            ce_hit_count = rec_hit_count row + 1,
            ce_similarity = rec_similarity row,
            ce_created_at = rec_created_at row\<rparr>
     in io_bind (logger INFO
          (ustr ''Cache hit: similarity='' @ format_4f env (ce_similarity entry)))
          (\<lambda>_. io_return entry)))"

definition cache_outcome :: "env \<Rightarrow> cache_record option \<Rightarrow> (CacheEntry option) io" where
  "cache_outcome env row =
     (case row of
        Some row \<Rightarrow> io_bind (cache_hit env row) (\<lambda>entry. io_return (Some entry))
      | None \<Rightarrow> io_bind (logger DEBUG (ustr ''Cache miss'')) (\<lambda>_. io_return None))"

definition cache_search :: "env \<Rightarrow> ustring \<Rightarrow> (CacheEntry option) io" where
  "cache_search env query = io_bind (cache_lookup env query) (cache_outcome env)"





section \<open>External search tier (app/services/mcp\_client.py)\<close>

definition ARXIV_API_URL :: ustring where
  "ARXIV_API_URL = ustr ''https://export.arxiv.org/api/query''"

text \<open>\<open>root.findall(tag)\<close> and \<open>entry.find(tag)\<close>: the children with that tag, and the
  first of them.\<close>

definition xml_findall :: "ustring \<Rightarrow> xml \<Rightarrow> xml list" where
  "xml_findall tag e = filter (\<lambda>c. elem_tag c = tag) (elem_children e)"

definition xml_find :: "ustring \<Rightarrow> xml \<Rightarrow> xml option" where
  "xml_find tag e = (case xml_findall tag e of [] \<Rightarrow> None | c # _ \<Rightarrow> Some c)"

definition atom :: "string \<Rightarrow> ustring" where
  "atom name = ustr ''{http://www.w3.org/2005/Atom}'' @ ustr name"

definition arxiv_ns :: "string \<Rightarrow> ustring" where
  "arxiv_ns name = ustr ''{http://arxiv.org/schemas/atom}'' @ ustr name"

text \<open>\<open>elem.text if elem is not None and elem.text else ""\<close>, before any stripping.\<close>

definition text_or_empty :: "xml option \<Rightarrow> ustring" where
  "text_or_empty elem =
     (case elem of
        None \<Rightarrow> []
      | Some e \<Rightarrow> (case elem_text e of None \<Rightarrow> [] | Some t \<Rightarrow> t))"

definition entry_authors :: "xml \<Rightarrow> ustring list" where
  "entry_authors entry =
     concat (map (\<lambda>author.
                    case xml_find (atom ''name'') author of
                      None \<Rightarrow> []
                    | Some name \<Rightarrow>
                        (case elem_text name of
                           None \<Rightarrow> []
                         | Some t \<Rightarrow> if t = [] then [] else [t]))
                 (xml_findall (atom ''author'') entry))"

definition entry_categories :: "xml \<Rightarrow> ustring list" where
  "entry_categories entry =
     concat (map (\<lambda>category.
                    case map_of (elem_attrib category) (ustr ''term'') of
                      None \<Rightarrow> []
                    | Some v \<Rightarrow> [v])
                 (xml_findall (arxiv_ns ''primary_category'') entry))"

text \<open>The body of the loop over the entries of the feed: one result per entry.\<close>

definition arxiv_entry_result :: "xml \<Rightarrow> MCPSearchResult" where
  "arxiv_entry_result entry =
     (let title_elem = xml_find (atom ''title'') entry;
          summary_elem = xml_find (atom ''summary'') entry;
          id_elem = xml_find (atom ''id'') entry;
          authors = entry_authors entry;
          categories = entry_categories entry;
          title = py_strip (text_or_empty title_elem);
          summary = py_strip (text_or_empty summary_elem);
          arxiv_id = text_or_empty id_elem;
          title = py_join (ustr '' '') (py_split_ws title);
          summary = py_join (ustr '' '') (py_split_ws summary);
          content = ustr ''Title: '' @ title @ [10, 10] @ ustr ''Abstract: '' @ summary
      in \<lparr>mr_content = content, mr_source_type = ARXIV_PAPER, mr_source_url = Some arxiv_id,
          mr_source_title = Some title,
          mr_source_author = Some (py_join (ustr '', '') (py_slice_to authors 3)),
          mr_metadata =
            [(ustr ''arxiv_id'',
                JStr (if arxiv_id = [] then [] else last (split_char 47 [] arxiv_id))),
             (ustr ''categories'', JList (map JStr categories)),
             (ustr ''all_authors'', JList (map JStr authors))]\<rparr>)"

text \<open>
  \<open>_parse_arxiv_response\<close>: a \<open>ParseError\<close> of \<open>ET.fromstring\<close> is logged and leaves
  the result list as it is at that moment, which is empty.
\<close>

definition parse_arxiv_response :: "env \<Rightarrow> ustring \<Rightarrow> (MCPSearchResult list) io" where
  "parse_arxiv_response env xml_text =
     (case xml_fromstring env xml_text of
        Inl msg \<Rightarrow>
          io_bind (logger ERROR (ustr ''Failed to parse arXiv XML: '' @ msg))
            (\<lambda>_. io_return [])
      | Inr feed \<Rightarrow>
          io_return (map arxiv_entry_result (xml_findall (atom ''entry'') feed)))"

text \<open>\<open>response.raise_for_status()\<close>.\<close>

definition check_status :: "env \<Rightarrow> http_response \<Rightarrow> unit io" where
  "check_status env response =
     io_lift (case raise_for_status env response of Some e \<Rightarrow> Inl e | None \<Rightarrow> Inr ())"

definition arxiv_params :: "ustring list \<Rightarrow> int \<Rightarrow> (ustring \<times> json) list" where
  "arxiv_params keywords max_results =
     (let query_parts = map (\<lambda>kw. ustr ''all:'' @ [34] @ kw @ [34]) keywords;
          query = py_join (ustr '' OR '') query_parts
      in [(ustr ''search_query'', JStr query),
          (ustr ''start'', JInt 0),
          (ustr ''max_results'', JInt max_results),
          (ustr ''sortBy'', JStr (ustr ''relevance'')),
          (ustr ''sortOrder'', JStr (ustr ''descending''))])"

text \<open>\<open>MCPClientService.search_arxiv\<close>.\<close>

definition search_arxiv :: "env \<Rightarrow> ustring list \<Rightarrow> int \<Rightarrow> (MCPSearchResult list) io" where
  "search_arxiv env keywords max_results =
     (if keywords = [] then io_return []
      else
        let params = arxiv_params keywords max_results
        in io_try
             (io_bind (external (HttpGet ARXIV_API_URL params)
                         (\<lambda>t. http_get env t ARXIV_API_URL params)) (\<lambda>response.
              io_bind (check_status env response) (\<lambda>_.
              io_bind (parse_arxiv_response env (hr_text response)) (\<lambda>results.
              io_bind (logger INFO
                         (ustr ''arXiv search returned '' @ str_nat (length results)
                            @ ustr '' results for: ''
                            @ str_value env (JList (map JStr keywords))))
                (\<lambda>_. io_return results)))))
             (\<lambda>e. io_bind (logger ERROR (ustr ''arXiv search failed: '' @ str_exn e))
                     (\<lambda>_. io_return [])))"

text \<open>\<open>str(v)\<close> inside an f-string, for a value read from JSON.\<close>

definition py_str :: "env \<Rightarrow> json \<Rightarrow> ustring" where
  "py_str env v = (case v of JStr t \<Rightarrow> t | _ \<Rightarrow> str_value env v)"

text \<open>\<open>d.get(key, default)\<close> on a value read from JSON: only a dictionary has \<open>get\<close>.\<close>

definition json_get :: "env \<Rightarrow> json \<Rightarrow> ustring \<Rightarrow> json \<Rightarrow> exn + json" where
  "json_get env d key dflt =
     (case d of
        JObj kvs \<Rightarrow> Inr (case map_of kvs key of None \<Rightarrow> dflt | Some v \<Rightarrow> v)
      | _ \<Rightarrow> Inl (py_error env AttributeError))"

text \<open>The validation of an \<open>Optional[str]\<close> field: a string or \<open>None\<close>, nothing else.\<close>

definition validate_optional_str :: "env \<Rightarrow> json \<Rightarrow> exn + ustring option" where
  "validate_optional_str env v =
     (case v of
        JStr t \<Rightarrow> Inr (Some t)
      | JNull \<Rightarrow> Inr None
      | _ \<Rightarrow> Inl (py_error env ValidationError))"

text \<open>The body of the loop over the models of the response.\<close>

definition hf_model_result :: "env \<Rightarrow> json \<Rightarrow> exn + MCPSearchResult" where
  "hf_model_result env model =
     (case json_get env model (ustr ''modelId'') (JStr []) of
        Inl e \<Rightarrow> Inl e
      | Inr model_id \<Rightarrow>
     (case json_get env model (ustr ''description'') (JStr (ustr ''No description available'')) of
        Inl e \<Rightarrow> Inl e
      | Inr description \<Rightarrow>
     (case json_get env model (ustr ''author'') (JStr []) of
        Inl e \<Rightarrow> Inl e
      | Inr author \<Rightarrow>
     (case json_get env model (ustr ''downloads'') (JInt 0) of
        Inl e \<Rightarrow> Inl e
      | Inr downloads \<Rightarrow>
     (case json_get env model (ustr ''likes'') (JInt 0) of
        Inl e \<Rightarrow> Inl e
      | Inr likes \<Rightarrow>
     (case json_get env model (ustr ''tags'') (JList []) of
        Inl e \<Rightarrow> Inl e
      | Inr tags \<Rightarrow>
     (case validate_optional_str env model_id of
        Inl e \<Rightarrow> Inl e
      | Inr source_title \<Rightarrow>
     (case validate_optional_str env author of
        Inl e \<Rightarrow> Inl e
      | Inr source_author \<Rightarrow>
          Inr \<lparr>mr_content = ustr ''HuggingFace Model: '' @ py_str env model_id @ [10, 10]
                   @ ustr ''Description: '' @ py_str env description,
               mr_source_type = HUGGINGFACE,
               mr_source_url = Some (ustr ''https://huggingface.co/'' @ py_str env model_id),
               mr_source_title = source_title,
               mr_source_author = source_author,
               mr_metadata = [(ustr ''downloads'', downloads), (ustr ''likes'', likes),
                              (ustr ''tags'', tags)]\<rparr>))))))))"

text \<open>
  The loop appends to \<open>results\<close>, a variable of the enclosing function: when an element
  raises, the results appended so far stay in it.
\<close>

fun hf_loop :: "env \<Rightarrow> json list \<Rightarrow> MCPSearchResult list \<times> exn option" where
  "hf_loop env [] = ([], None)"
| "hf_loop env (model # models) =
     (case hf_model_result env model of
        Inl e \<Rightarrow> ([], Some e)
      | Inr result \<Rightarrow> (case hf_loop env models of (results, err) \<Rightarrow> (result # results, err)))"

text \<open>\<open>models[:max_results]\<close>, then iteration: a list gives its elements, a string its
  characters, anything else cannot be sliced.\<close>

definition sliced_models :: "env \<Rightarrow> json \<Rightarrow> int \<Rightarrow> exn + json list" where
  "sliced_models env models max_results =
     (case models of
        JList xs \<Rightarrow> Inr (py_slice_to xs max_results)
      | JStr t \<Rightarrow> Inr (map (\<lambda>c. JStr [c]) (py_slice_to t max_results))
      | _ \<Rightarrow> Inl (py_error env TypeError))"

text \<open>\<open>response.json()\<close>.\<close>

definition response_json :: "env \<Rightarrow> http_response \<Rightarrow> exn + json" where
  "response_json env response =
     (case json_loads env (hr_text response) of
        Inl msg \<Rightarrow> Inl (Exn JSONDecodeError msg)
      | Inr v \<Rightarrow> Inr v)"

text \<open>The \<open>try\<close> block of \<open>search_huggingface\<close>: the value of \<open>results\<close> when the block
  is left, and the exception that left it, if any.\<close>

definition hf_try_block ::
  "env \<Rightarrow> ustring list \<Rightarrow> ustring \<Rightarrow> int \<Rightarrow> (MCPSearchResult list \<times> exn option) io" where
  "hf_try_block env keywords model_url max_results =
     io_try
       (io_bind (external (HttpGet model_url []) (\<lambda>t. http_get env t model_url []))
          (\<lambda>response.
        io_bind (check_status env response) (\<lambda>_.
        io_bind (io_lift (response_json env response)) (\<lambda>models.
        io_bind (io_lift (sliced_models env models max_results)) (\<lambda>sliced.
        case hf_loop env sliced of
          (results, Some e) \<Rightarrow> io_return (results, Some e)
        | (results, None) \<Rightarrow>
            io_bind (logger INFO
                       (ustr ''HuggingFace search returned '' @ str_nat (length results)
                          @ ustr '' results for: ''
                          @ str_value env (JList (map JStr keywords))))
              (\<lambda>_. io_return (results, None)))))))
       (\<lambda>e. io_return ([], Some e))"

text \<open>The URL of the model search: the quoted query and the limit.\<close>

definition huggingface_model_url :: "env \<Rightarrow> ustring \<Rightarrow> int \<Rightarrow> ustring" where
  "huggingface_model_url env query max_results =
     ustr ''https://huggingface.co/api/models?search='' @ url_quote env query
       @ ustr ''&limit='' @ str_int max_results"

text \<open>\<open>MCPClientService.search_huggingface\<close>.\<close>

definition search_huggingface ::
  "env \<Rightarrow> ustring list \<Rightarrow> int \<Rightarrow> (MCPSearchResult list) io" where
  "search_huggingface env keywords max_results =
     (if keywords = [] then io_return []
      else
        let query = py_join (ustr '' '') keywords;
            model_url = huggingface_model_url env query max_results
        in io_bind (hf_try_block env keywords model_url max_results) (\<lambda>(results, err).
             case err of
               None \<Rightarrow> io_return results
             | Some e \<Rightarrow>
                 io_bind (logger ERROR (ustr ''HuggingFace search failed: '' @ str_exn e))
                   (\<lambda>_. io_return results)))"


section \<open>Response synthesis (app/services/llm\_responder.py)\<close>

text \<open>\<open>RESPONSE_PROMPT.format(context=context, query=query)\<close>.\<close>

definition RESPONSE_PROMPT :: "ustring \<Rightarrow> ustring \<Rightarrow> ustring" where
  "RESPONSE_PROMPT context query =
     ustr ''You are an AI research assistant. Based on the provided ''
     @ ustr ''context, answer the user''
     @ [39]
     @ ustr ''s question accurately and concisely.''
     @ [10, 10]
     @ ustr ''Context from knowledge base:''
     @ [10]
     @ context
     @ [10, 10]
     @ ustr ''User question: ''
     @ query
     @ [10, 10]
     @ ustr ''Instructions:''
     @ [10]
     @ ustr ''1. Synthesize information from the provided sources''
     @ [10]
     @ ustr ''2. Be specific and cite relevant details from the context''
     @ [10]
     @ ustr ''3. If the context doesn''
     @ [39]
     @ ustr ''t fully answer the question, acknowledge limitations''
     @ [10]
     @ ustr ''4. Keep the response focused and informative''
     @ [10]
     @ ustr ''5. Do not make up information not present in the context''
     @ [10]
     @ ustr ''6. IMPORTANT: Respond in the same language as the user''
     @ [39]
     @ ustr ''s question. If the question is in Korean, respond in Korean. ''
     @ ustr ''If the question is in English, respond in English.''
     @ [10, 10]
     @ ustr ''Response:''"

definition responder_system_message :: ustring where
  "responder_system_message =
     ustr ''You are a helpful AI research assistant with expertise in ''
     @ ustr ''machine learning, AI, and academic research.''"

definition not_found_english :: ustring where
  "not_found_english =
     ustr ''I couldn''
     @ [39]
     @ ustr ''t find relevant information to answer your question. Try ''
     @ ustr ''rephrasing your query or asking about a different topic ''
     @ ustr ''related to AI and machine learning research.''"

definition not_found_korean :: ustring where
  "not_found_korean =
     [51656, 47928, 50640, 32, 45824, 54620, 32, 44288, 47144, 32, 51221, 48372,
      47484, 32, 52286, 51012, 32, 49688, 32, 50630, 49845, 45768, 45796, 46, 32,
      51656, 47928, 51012, 32, 45796, 47476, 44172, 32, 54364, 54788, 54616,
      44144, 45208, 32, 65, 73, 32, 48143, 32, 47672, 49888, 47084, 45789, 32,
      50672, 44396, 50752, 32, 44288, 47144, 46108, 32, 45796, 47480, 32, 51452,
      51228, 47196, 32, 51656, 47928, 54644, 32, 51452, 49464, 50836, 46]"

text \<open>\<open>_not_found_response\<close>: Korean when the query has a character of the Hangul
  syllable block (code points 44032 to 55203).\<close>

definition not_found_response :: "ustring \<Rightarrow> ustring" where
  "not_found_response query =
     (if query \<noteq> [] \<and> list_ex (\<lambda>char. 44032 \<le> char \<and> char \<le> 55203) query
      then not_found_korean else not_found_english)"

text \<open>The context line and the citation built for a knowledge item and for an external
  result, as in the two loops of \<open>generate_response\<close>.\<close>

definition knowledge_context_part :: "nat \<Rightarrow> KnowledgeItem \<Rightarrow> ustring" where
  "knowledge_context_part i item =
     ustr ''[Source '' @ str_nat i @ ustr ''] ('' @ SourceType_value (ki_source_type item)
       @ ustr '')'' @ [10] @ py_slice_to (ki_content item) 1000"

definition knowledge_source_info :: "KnowledgeItem \<Rightarrow> SourceInfo" where
  "knowledge_source_info item =
     \<lparr>si_source_type = ki_source_type item, si_title = ki_source_title item,
      si_url = ki_source_url item, si_author = ki_source_author item,
      si_relevance_score = ki_final_score item\<rparr>"

definition mcp_context_part :: "nat \<Rightarrow> MCPSearchResult \<Rightarrow> ustring" where
  "mcp_context_part i result =
     ustr ''[Source '' @ str_nat i @ ustr ''] ('' @ SourceType_value (mr_source_type result)
       @ ustr '')'' @ [10] @ py_slice_to (mr_content result) 1000"

definition mcp_source_info :: "MCPSearchResult \<Rightarrow> SourceInfo" where
  "mcp_source_info result =
     \<lparr>si_source_type = mr_source_type result, si_title = mr_source_title result,
      si_url = mr_source_url result, si_author = mr_source_author result,
      si_relevance_score = 0.0\<rparr>"

text \<open>\<open>if xs:\<close> on an optional list: \<open>None\<close> and the empty list are both skipped.\<close>

definition list_or_empty :: "'a list option \<Rightarrow> 'a list" where
  "list_or_empty xs = (case xs of None \<Rightarrow> [] | Some ys \<Rightarrow> ys)"

definition response_context_parts ::
  "KnowledgeItem list option \<Rightarrow> MCPSearchResult list option \<Rightarrow> ustring list" where
  "response_context_parts knowledge_items mcp_results =
     (let parts = map (\<lambda>(i, item). knowledge_context_part i item)
                    (enumerate 1 (list_or_empty knowledge_items));
          offset = length parts
      in parts @ map (\<lambda>(i, result). mcp_context_part i result)
                   (enumerate (offset + 1) (list_or_empty mcp_results)))"

definition response_sources ::
  "KnowledgeItem list option \<Rightarrow> MCPSearchResult list option \<Rightarrow> SourceInfo list" where
  "response_sources knowledge_items mcp_results =
     map knowledge_source_info (list_or_empty knowledge_items)
       @ map mcp_source_info (list_or_empty mcp_results)"

definition response_request :: "env \<Rightarrow> ustring \<Rightarrow> ustring list \<Rightarrow> chat_request" where
  "response_request env query context_parts =
     \<lparr>cq_model = llm_model (settings env), cq_system = responder_system_message,
      cq_user = RESPONSE_PROMPT (py_join ([10, 10] @ ustr ''---'' @ [10, 10]) context_parts) query,
      cq_temperature = 0.7, cq_max_tokens = 1000\<rparr>"

text \<open>\<open>response.choices[0].message.content\<close>, on which \<open>strip\<close> is then called.\<close>

definition first_choice_content :: "env \<Rightarrow> (ustring option) list \<Rightarrow> exn + ustring" where
  "first_choice_content env choices =
     (case choices of
        [] \<Rightarrow> Inl (py_error env IndexError)
      | None # _ \<Rightarrow> Inl (py_error env AttributeError)
      | Some content # _ \<Rightarrow> Inr content)"

text \<open>
  \<open>LLMResponderService.generate_response\<close>. \<open>get_openai_client()\<close> only builds the client
  object, the first time it is called; the model has no failure for it.
\<close>

definition generate_response ::
  "env \<Rightarrow> ustring \<Rightarrow> KnowledgeItem list option \<Rightarrow> MCPSearchResult list option
     \<Rightarrow> (ustring \<times> SourceInfo list) io" where
  "generate_response env query knowledge_items mcp_results =
     (let context_parts = response_context_parts knowledge_items mcp_results;
          sources = response_sources knowledge_items mcp_results
      in if context_parts = [] then io_return (not_found_response query, [])
         else
           let request = response_request env query context_parts
           in io_try
                (io_bind (external (ChatCreate request) (\<lambda>t. chat_create env t request))
                   (\<lambda>choices.
                 io_bind (io_lift (first_choice_content env choices)) (\<lambda>content.
                 let response_text = py_strip content
                 in io_bind (logger INFO
                      (ustr ''Generated response with '' @ str_nat (length sources)
                         @ ustr '' sources''))
                      (\<lambda>_. io_return (response_text, sources)))))
                (\<lambda>e. io_bind (logger ERROR (ustr ''Response generation failed: '' @ str_exn e))
                        (\<lambda>_. io_return
                                (ustr ''I encountered an error generating a response: ''
                                   @ str_exn e, sources))))"

section \<open>Keyword extraction (app/services/keyword\_extractor.py)\<close>












section \<open>Pipeline (app/core/orchestrator.py)\<close>

text \<open>\<open>time.time()\<close>.\<close>

definition time_now :: "env \<Rightarrow> real io" where
  "time_now env =
     (\<lambda>w. (Inr (time_time env (clock_reads w)), w\<lparr>clock_reads := Suc (clock_reads w)\<rparr>))"

definition respond ::
  "env \<Rightarrow> real \<Rightarrow> ustring \<Rightarrow> ustring \<Rightarrow> SourceInfo list \<Rightarrow> SearchPath \<Rightarrow> ustring list
     \<Rightarrow> SearchResponse io" where
  "respond env start_time query response sources path keywords =
     io_bind (time_now env) (\<lambda>t.
       io_return \<lparr>sr_query = query, sr_response = response, sr_sources = sources,
                  sr_search_path = path, sr_processing_time_ms = fmul (fsub t start_time) 1000,
                  sr_keywords = keywords\<rparr>)"



section \<open>Vocabulary of the properties\<close>

definition item_of_row :: "KnowledgeItem \<Rightarrow> knowledge_record \<Rightarrow> bool" where
  "item_of_row it r \<longleftrightarrow>
     ki_id it = row_id r \<and> ki_content it = row_content r
     \<and> ki_source_url it = row_source_url r \<and> ki_source_title it = row_source_title r
     \<and> ki_source_author it = row_source_author r \<and> ki_created_at it = row_created_at r
     \<and> ki_similarity it = row_similarity r
     \<and> ki_recency_score it \<in> {1, 0.7, 0.5}
     \<and> ki_final_score it = final_score_of (ki_similarity it) (ki_recency_score it)"

fun db_statements :: "event list \<Rightarrow> sql list" where
  "db_statements [] = []"
| "db_statements (DbExecute s # evs) = s # db_statements evs"
| "db_statements (ev # evs) = db_statements evs"

definition age_days :: "env \<Rightarrow> world \<Rightarrow> datetime \<Rightarrow> int" where
  "age_days env w created_at =
     timedelta_days (utc_now env (clock_reads w)
        - (wall created_at - (case tzinfo created_at of None \<Rightarrow> 0 | Some off \<Rightarrow> off)))"

definition arxiv_request :: "ustring list \<Rightarrow> int \<Rightarrow> event" where
  "arxiv_request keywords max_results = HttpGet ARXIV_API_URL (arxiv_params keywords max_results)"

definition huggingface_request :: "env \<Rightarrow> ustring list \<Rightarrow> int \<Rightarrow> event" where
  "huggingface_request env keywords max_results =
     HttpGet (huggingface_model_url env (py_join (ustr '' '') keywords) max_results) []"

definition error_response :: "exn \<Rightarrow> ustring" where
  "error_response e = ustr ''I encountered an error generating a response: '' @ str_exn e"

text \<open>
  Two calls of \<open>search\<close> on the cache, running as two tasks of the event loop. A task
  gives way to another only where it awaits, and each statement reaches the store in one
  piece. In this schedule the second task runs its embedding call and its lookup while
  the first is suspended between its lookup and its update; then each task runs to its
  end, the first before the second.
\<close>

definition overlapping_cache_searches ::
  "env \<Rightarrow> ustring \<Rightarrow> ustring \<Rightarrow> (CacheEntry option \<times> CacheEntry option) io" where
  "overlapping_cache_searches env query1 query2 =
     io_bind (cache_lookup env query1) (\<lambda>row1.
     io_bind (cache_lookup env query2) (\<lambda>row2.
     io_bind (cache_outcome env row1) (\<lambda>result1.
     io_bind (cache_outcome env row2) (\<lambda>result2.
     io_return (result1, result2)))))"






text \<open>
  For the proofs: a step that only extends the trace, by events whose statements are the
  given ones, and may read the clocks; a computation all of whose runs send no statement;
  and a step that appends the given rows to the two tables.
\<close>

definition appends :: "world \<Rightarrow> world \<Rightarrow> sql list \<Rightarrow> bool" where
  "appends w w' stmts \<longleftrightarrow>
     (\<exists>new n. w' = w\<lparr>trace := trace w @ new, clock_reads := n\<rparr> \<and> db_statements new = stmts)"

definition quiet :: "'a io \<Rightarrow> bool" where
  "quiet m \<longleftrightarrow> (\<forall>w r w'. m w = (r, w') \<longrightarrow> appends w w' [])"


section \<open>A concrete environment and store\<close>

text \<open>
  The settings are the defaults of app/config.py. The embedding of a text is the vector of
  its length and 1; a float is printed as an integer followed by \<open>.0\<close>; two equal vectors
  are at distance 0 and two different ones at distance 1. The clocks stand at day 100.
  The providers refuse the connection, and the text generator answers \<open>answer\<close>.
\<close>

definition demo_settings :: Settings where
  "demo_settings =
     \<lparr>embedding_model = ustr ''text-embedding-3-small'', llm_model = ustr ''gpt-4o-mini'',
      cache_similarity_threshold = double 0.95, vector_search_limit = 10\<rparr>"

definition demo_env :: env where
  "demo_env =
     \<lparr>settings = demo_settings,
      embeddings_create = (\<lambda>t m x. Inr [[real (length x), 1]]),
      chat_create = (\<lambda>t q. Inr [Some (ustr ''answer'')]),
      http_get = (\<lambda>t u p. Inl (Exn (LibraryError (ustr ''httpx.ConnectError'')) (ustr ''refused''))),
      raise_for_status = (\<lambda>r. None),
      db_fault = (\<lambda>t. None),
      utc_now = (\<lambda>n. 100 * 86400000000),
      cosine_distance = (\<lambda>a b. if a = b then 0 else 1),
      json_loads = (\<lambda>s. if s = ustr ''{}'' then Inr (JObj [])
                        else if s = ustr ''[]'' then Inr (JList []) else Inl (ustr ''bad'')),
      json_dumps = (\<lambda>j. ustr ''{}''),
      xml_fromstring = (\<lambda>s. Inl (ustr ''syntax error'')),
      url_quote = (\<lambda>s. s),
      str_lower = (\<lambda>s. s),
      str_value = (\<lambda>j. case j of JFloat x \<Rightarrow> str_int \<lfloor>x\<rfloor> @ ustr ''.0'' | _ \<Rightarrow> ustr ''v''),
      format_4f = (\<lambda>x. ustr ''f''),
      error_text = (\<lambda>c. ustr ''error''),
      validate_SourceInfo = (\<lambda>kvs. Inl (ustr ''invalid'')),
      db_now = (\<lambda>t. \<lparr>wall = 100 * 86400000000, tzinfo = Some 0\<rparr>),
      time_time = (\<lambda>n. 8640000)\<rparr>"

definition demo_doc :: "int \<Rightarrow> ustring \<Rightarrow> int \<Rightarrow> knowledge_row" where
  "demo_doc i emb created_day =
     \<lparr>kb_id = i, kb_content = ustr ''doc'', kb_content_embedding = emb,
      kb_source_type = ustr ''arxiv_paper'', kb_source_url = None, kb_source_title = None,
      kb_source_author = None, kb_metadata = None,
      kb_created_at = \<lparr>wall = created_day * 86400000000, tzinfo = None\<rparr>\<rparr>"

definition demo_world :: world where
  "demo_world =
     \<lparr>semantic_cache = [],
      knowledge_base = [demo_doc 1 (ustr ''[5.0,1.0]'') 98, demo_doc 2 (ustr ''[3.0,1.0]'') 40,
                        demo_doc 3 (ustr ''[3.0,1.0]'') 98],
      cache_id_seq = 0, knowledge_id_seq = 3, clock_reads = 0, trace = []\<rparr>"

definition demo_item :: KnowledgeItem where
  "demo_item =
     \<lparr>ki_id = 2, ki_content = ustr ''doc'', ki_source_type = ARXIV_PAPER, ki_source_url = None,
      ki_source_title = None, ki_source_author = None, ki_metadata = [],
      ki_similarity = 0.85, ki_recency_score = 1, ki_final_score = 0.895,
      ki_created_at = \<lparr>wall = 98 * 86400000000, tzinfo = None\<rparr>\<rparr>"

text \<open>The items of documents 3 and 2 for the keyword \<open>rag\<close>: both at similarity 1, the
  first two days old, the second sixty.\<close>

definition demo_recent :: KnowledgeItem where
  "demo_recent =
     \<lparr>ki_id = 3, ki_content = ustr ''doc'', ki_source_type = ARXIV_PAPER, ki_source_url = None,
      ki_source_title = None, ki_source_author = None, ki_metadata = [],
      ki_similarity = 1, ki_recency_score = 1, ki_final_score = 1,
      ki_created_at = \<lparr>wall = 98 * 86400000000, tzinfo = None\<rparr>\<rparr>"

definition demo_older :: KnowledgeItem where
  "demo_older =
     \<lparr>ki_id = 2, ki_content = ustr ''doc'', ki_source_type = ARXIV_PAPER, ki_source_url = None,
      ki_source_title = None, ki_source_author = None, ki_metadata = [],
      ki_similarity = 1, ki_recency_score = 0.5,
      ki_final_score = 7656119366529843 / 9007199254740992,
      ki_created_at = \<lparr>wall = 40 * 86400000000, tzinfo = None\<rparr>\<rparr>"

text \<open>The same environment with an index that puts every document at distance
  \<open>2 powi -53\<close> of the query.\<close>

definition demo_env_near :: env where
  "demo_env_near = demo_env\<lparr>cosine_distance := (\<lambda>a b. 1 / 2 ^ 53)\<rparr>"

definition demo_near :: KnowledgeItem where
  "demo_near =
     \<lparr>ki_id = 3, ki_content = ustr ''doc'', ki_source_type = ARXIV_PAPER, ki_source_url = None,
      ki_source_title = None, ki_source_author = None, ki_metadata = [],
      ki_similarity = 9007199254740991 / 9007199254740992, ki_recency_score = 1,
      ki_final_score = 4503599627370495 / 4503599627370496,
      ki_created_at = \<lparr>wall = 98 * 86400000000, tzinfo = None\<rparr>\<rparr>"

definition demo_world_near :: world where
  "demo_world_near = demo_world\<lparr>knowledge_base := [demo_doc 3 (ustr ''[3.0,1.0]'') 98]\<rparr>"

definition demo_env_unparseable :: env where
  "demo_env_unparseable =
     demo_env\<lparr>http_get := (\<lambda>t u p. Inr \<lparr>hr_status_code = 200, hr_text = ustr ''<html>''\<rparr>)\<rparr>"

definition demo_env_http_500 :: env where
  "demo_env_http_500 =
     demo_env\<lparr>http_get := (\<lambda>t u p. Inr \<lparr>hr_status_code = 500, hr_text = []\<rparr>),
              raise_for_status := (\<lambda>r. if hr_status_code r = 200 then None
                   else Some (Exn (LibraryError (ustr ''httpx.HTTPStatusError''))
                                  (ustr ''Server error'')))\<rparr>"

definition demo_env_llm_down :: env where
  "demo_env_llm_down =
     demo_env\<lparr>chat_create := (\<lambda>t q. Inl (Exn (LibraryError (ustr ''openai.APITimeoutError''))
                                          (ustr ''Request timed out.'')))\<rparr>"

definition demo_result :: MCPSearchResult where
  "demo_result =
     \<lparr>mr_content = ustr ''paper'', mr_source_type = ARXIV_PAPER, mr_source_url = None,
      mr_source_title = Some (ustr ''A paper''), mr_source_author = None, mr_metadata = []\<rparr>"

definition demo_insight :: KnowledgeItem where
  "demo_insight =
     \<lparr>ki_id = 7, ki_content = ustr ''notes on retrieval'', ki_source_type = EXPERT_INSIGHT,
      ki_source_url = Some (ustr ''https://example.org/notes''),
      ki_source_title = Some (ustr ''Notes''), ki_source_author = Some (ustr ''b''),
      ki_metadata = [], ki_similarity = 1, ki_recency_score = 0.5,
      ki_final_score = 7656119366529843 / 9007199254740992,
      ki_created_at = \<lparr>wall = 40 * 86400000000, tzinfo = None\<rparr>\<rparr>"

definition demo_model :: MCPSearchResult where
  "demo_model =
     \<lparr>mr_content = ustr ''HuggingFace Model: m'' @ [10, 10]
                     @ ustr ''Description: No description available'',
      mr_source_type = HUGGINGFACE, mr_source_url = Some (ustr ''https://huggingface.co/m''),
      mr_source_title = Some (ustr ''m''), mr_source_author = Some (ustr ''a''),
      mr_metadata = [(ustr ''downloads'', JInt 0), (ustr ''likes'', JInt 0),
                     (ustr ''tags'', JList [])]\<rparr>"

text \<open>A provider that answers with the JSON list of the model \<open>m\<close> of the author
  \<open>a\<close> and the number 5, whose second element is not a model.\<close>

definition demo_body :: ustring where
  "demo_body =
     ustr ''[{'' @ [34] @ ustr ''modelId'' @ [34] @ ustr '':'' @ [34] @ ustr ''m'' @ [34]
     @ ustr '','' @ [34] @ ustr ''author'' @ [34] @ ustr '':'' @ [34] @ ustr ''a'' @ [34]
     @ ustr ''},5]''"

definition demo_env_second_element :: env where
  "demo_env_second_element =
     demo_env\<lparr>http_get := (\<lambda>t u p. Inr \<lparr>hr_status_code = 200, hr_text = demo_body\<rparr>),
              json_loads := (\<lambda>s. if s = demo_body
                   then Inr (JList [JObj [(ustr ''modelId'', JStr (ustr ''m'')),
                                          (ustr ''author'', JStr (ustr ''a''))],
                                    JInt 5])
                   else json_loads demo_env s),
              error_text := (\<lambda>c. if c = AttributeError
                   then ustr ''int object has no attribute get'' else ustr ''error'')\<rparr>"

definition demo_cache_row :: "int \<Rightarrow> ustring \<Rightarrow> int \<Rightarrow> cache_row" where
  "demo_cache_row i emb hits =
     \<lparr>cr_id = i, cr_query_text = ustr ''what is rag'', cr_query_embedding = emb,
      cr_response_text = ustr ''answer'', cr_sources = None, cr_hit_count = hits,
      cr_created_at = \<lparr>wall = 0, tzinfo = None\<rparr>\<rparr>"

definition demo_cache_world :: world where
  "demo_cache_world =
     demo_world\<lparr>semantic_cache := [demo_cache_row 1 (ustr ''[9.0,1.0]'') 4,
                                   demo_cache_row 2 (ustr ''[11.0,1.0]'') 5]\<rparr>"

section \<open>Properties\<close>

lemma io_bind_Inr:
  "io_bind m f w = (Inr y, w') \<longleftrightarrow> (\<exists>x w1. m w = (Inr x, w1) \<and> f x w1 = (Inr y, w'))"
  by (auto simp: io_bind_def split: prod.splits sum.splits)

lemma io_return_eq [simp]: "io_return x w = (r, w') \<longleftrightarrow> r = Inr x \<and> w' = w"
  by (auto simp: io_return_def)

lemma io_raise_eq [simp]: "io_raise e w = (r, w') \<longleftrightarrow> r = Inl e \<and> w' = w"
  by (auto simp: io_raise_def)

lemma io_lift_eq [simp]: "io_lift r w = (r', w') \<longleftrightarrow> r = r' \<and> w' = w"
  by (auto simp: io_lift_def)

lemma round_half_even_cases:
  "round_half_even y = \<lfloor>y\<rfloor> \<or> round_half_even y = \<lfloor>y\<rfloor> + 1"
  by (simp add: round_half_even_def Let_def)

lemma round_half_even_error: "\<bar>of_int (round_half_even y) - y\<bar> \<le> 1/2"
  unfolding round_half_even_def Let_def
  by (auto simp: abs_le_iff)

lemma round_half_even_of_int [simp]: "round_half_even (of_int n) = n"
  by (simp add: round_half_even_def)

lemma round_half_even_mono:
  assumes "a \<le> b"
  shows "round_half_even a \<le> round_half_even b"
proof (cases "\<lfloor>a\<rfloor> = \<lfloor>b\<rfloor>")
  case True
  with assms have "a - of_int \<lfloor>a\<rfloor> \<le> b - of_int \<lfloor>b\<rfloor>" by simp
  with True show ?thesis
    by (auto simp: round_half_even_def Let_def)
next
  case False
  with assms have "\<lfloor>a\<rfloor> < \<lfloor>b\<rfloor>" using floor_mono[OF assms] by linarith
  moreover have "round_half_even a \<le> \<lfloor>a\<rfloor> + 1" using round_half_even_cases[of a] by linarith
  moreover have "\<lfloor>b\<rfloor> \<le> round_half_even b" using round_half_even_cases[of b] by linarith
  ultimately show ?thesis by linarith
qed

lemma powr2_int: "(2::real) powr real_of_int n = 2 powi n"
  by (rule powr_real_of_int') simp_all

lemma floor_log2_iff:
  assumes "0 < x"
  shows "\<lfloor>log 2 x\<rfloor> = e \<longleftrightarrow> 2 powi e \<le> x \<and> x < 2 powi (e + 1)"
  using floor_log_eq_powr_iff[of x 2 e] assms by (simp only: powr2_int)

lemma floor_log2_bounds:
  assumes "0 < x"
  shows "2 powi \<lfloor>log 2 x\<rfloor> \<le> x" and "x < 2 powi (\<lfloor>log 2 x\<rfloor> + 1)"
  using floor_log2_iff[OF assms, of "\<lfloor>log 2 x\<rfloor>"] by simp_all

lemma floor_log2_eq:
  assumes "0 < x" "2 powi e \<le> x" "x < 2 powi (e + 1)"
  shows "\<lfloor>log 2 x\<rfloor> = e"
  using floor_log2_iff[OF assms(1), of e] assms by simp

lemma double_exponent_eq:
  assumes "2 powi e \<le> \<bar>x\<bar>" "\<bar>x\<bar> < 2 powi (e + 1)" "- 1022 \<le> e"
  shows "double_exponent x = e - 52"
proof -
  have "0 < (2::real) powi e" by simp
  with assms(1) have "0 < \<bar>x\<bar>" by linarith
  from floor_log2_eq[OF this assms(1,2)] assms(3) show ?thesis
    by (simp add: double_exponent_def)
qed

lemma double_eval:
  assumes "2 powi e \<le> \<bar>x\<bar>" "\<bar>x\<bar> < 2 powi (e + 1)" "- 1022 \<le> e"
  shows "double x = of_int (round_half_even (x / 2 powi (e - 52))) * 2 powi (e - 52)"
proof -
  have "0 < (2::real) powi e" by simp
  with assms(1) have "0 < \<bar>x\<bar>" by linarith
  then have "x \<noteq> 0" by simp
  with double_exponent_eq[OF assms] show ?thesis by (simp add: double_def)
qed

lemma double_0 [simp]: "double 0 = 0"
  by (simp add: double_def)

lemma double_1 [simp]: "double 1 = 1"
  by (subst double_eval[where e = 0]) (simp_all add: round_half_even_def)

lemma double_07: "double (7/10) = 3152519739159347 / 4503599627370496"
  by (subst double_eval[where e = "-1"]) (simp_all add: round_half_even_def)

lemma double_03: "double (3/10) = 5404319552844595 / 18014398509481984"
  by (subst double_eval[where e = "-2"]) (simp_all add: round_half_even_def)

lemma double_nonneg:
  assumes "0 \<le> x"
  shows "0 \<le> double x"
proof -
  have "0 \<le> x / 2 powi double_exponent x" using assms by simp
  from round_half_even_mono[OF this] have "0 \<le> round_half_even (x / 2 powi double_exponent x)"
    using round_half_even_of_int[of 0] by simp
  then show ?thesis by (simp add: double_def)
qed

lemma double_exponent_mono:
  assumes "0 < x" "x \<le> y"
  shows "double_exponent x \<le> double_exponent y"
proof -
  from assms have "log 2 x \<le> log 2 y" by simp
  then have "\<lfloor>log 2 x\<rfloor> \<le> \<lfloor>log 2 y\<rfloor>" by (rule floor_mono)
  with assms show ?thesis by (simp add: double_exponent_def)
qed

lemma double_mono_pos:
  assumes "0 < x" "x \<le> y"
  shows "double x \<le> double y"
proof -
  let ?ex = "double_exponent x" and ?ey = "double_exponent y"
  from assms have y: "0 < y" by simp
  have dx: "double x = of_int (round_half_even (x / 2 powi ?ex)) * 2 powi ?ex"
    using assms(1) by (simp add: double_def)
  have dy: "double y = of_int (round_half_even (y / 2 powi ?ey)) * 2 powi ?ey"
    using y by (simp add: double_def)
  have le: "?ex \<le> ?ey" by (rule double_exponent_mono[OF assms])
  show ?thesis
  proof (cases "?ex = ?ey")
    case True
    have "x / 2 powi ?ex \<le> y / 2 powi ?ex" using assms(2) by (simp add: divide_right_mono)
    from round_half_even_mono[OF this]
    have "(of_int (round_half_even (x / 2 powi ?ex)) :: real)
            \<le> of_int (round_half_even (y / 2 powi ?ex))" by simp
    then have "of_int (round_half_even (x / 2 powi ?ex)) * 2 powi ?ex
            \<le> of_int (round_half_even (y / 2 powi ?ex)) * (2::real) powi ?ex"
      by (simp add: mult_right_mono)
    with dx dy True show ?thesis by simp
  next
    case False
    with le have lt: "?ex < ?ey" by simp
    let ?lx = "\<lfloor>log 2 x\<rfloor>" and ?ly = "\<lfloor>log 2 y\<rfloor>"
    from assms(1) y have ex: "?ex = max ?lx (- 1022) - 52" and ey: "?ey = max ?ly (- 1022) - 52"
      by (simp_all add: double_exponent_def)
    from lt ex ey have ly: "?ey = ?ly - 52" and gap: "?ex + 53 \<le> ?ly" and lx: "?lx \<le> ?ex + 52"
      by linarith+
    have "2 powi ?ly \<le> y" by (rule floor_log2_bounds(1)[OF y])
    then have "2 powi ?ly / 2 powi ?ey \<le> y / 2 powi ?ey" by (simp add: divide_right_mono)
    moreover have "(2::real) powi ?ly / 2 powi ?ey = of_int (2 ^ 52)"
      using ly by (simp add: power_int_diff[symmetric])
    ultimately have "of_int (2 ^ 52) \<le> y / 2 powi ?ey" by simp
    from round_half_even_mono[OF this]
    have "(2::int) ^ 52 \<le> round_half_even (y / 2 powi ?ey)" by (simp only: round_half_even_of_int)
    then have "(of_int (2 ^ 52) :: real) \<le> of_int (round_half_even (y / 2 powi ?ey))"
      by (simp only: of_int_le_iff)
    then have "of_int (2 ^ 52) * 2 powi ?ey \<le> double y"
      unfolding dy by (simp add: mult_right_mono)
    moreover have "of_int (2 ^ 52) * (2::real) powi ?ey = 2 powi ?ly"
      using ly by (simp add: power_int_diff)
    ultimately have big: "2 powi ?ly \<le> double y" by simp
    have "x < 2 powi (?lx + 1)" by (rule floor_log2_bounds(2)[OF assms(1)])
    also have "\<dots> \<le> 2 powi (?ex + 53)" using lx by (intro power_int_increasing) simp_all
    finally have "x \<le> 2 powi (?ex + 53)" by simp
    then have "x / 2 powi ?ex \<le> 2 powi (?ex + 53) / 2 powi ?ex" by (simp add: divide_right_mono)
    moreover have "(2::real) powi (?ex + 53) / 2 powi ?ex = of_int (2 ^ 53)"
      by (simp add: power_int_add)
    ultimately have "x / 2 powi ?ex \<le> of_int (2 ^ 53)" by simp
    from round_half_even_mono[OF this]
    have "round_half_even (x / 2 powi ?ex) \<le> (2::int) ^ 53" by (simp only: round_half_even_of_int)
    then have "(of_int (round_half_even (x / 2 powi ?ex)) :: real) \<le> of_int (2 ^ 53)"
      by (simp only: of_int_le_iff)
    then have "double x \<le> of_int (2 ^ 53) * 2 powi ?ex"
      unfolding dx by (simp add: mult_right_mono)
    moreover have "of_int (2 ^ 53) * (2::real) powi ?ex = 2 powi (?ex + 53)"
      by (simp add: power_int_add)
    ultimately have small: "double x \<le> 2 powi (?ex + 53)" by simp
    have "(2::real) powi (?ex + 53) \<le> 2 powi ?ly" using gap by (intro power_int_increasing) simp_all
    with small big show ?thesis by linarith
  qed
qed

lemma double_mono:
  assumes "0 \<le> x" "x \<le> y"
  shows "double x \<le> double y"
proof (cases "x = 0")
  case True
  with assms double_nonneg[of y] show ?thesis by simp
next
  case False
  with assms have "0 < x" by simp
  from double_mono_pos[OF this assms(2)] show ?thesis .
qed

lemma double_error:
  "\<bar>double x - x\<bar> \<le> 2 powi double_exponent x / 2"
proof (cases "x = 0")
  case True
  then show ?thesis by simp
next
  case False
  let ?q = "(2::real) powi double_exponent x"
  have q: "0 < ?q" by simp
  have "double x - x = (of_int (round_half_even (x / ?q)) - x / ?q) * ?q"
    using False by (simp add: double_def algebra_simps)
  then have "\<bar>double x - x\<bar> = \<bar>of_int (round_half_even (x / ?q)) - x / ?q\<bar> * ?q"
    by (simp add: abs_mult)
  also have "\<dots> \<le> 1/2 * ?q"
    using round_half_even_error[of "x / ?q"] by (intro mult_right_mono) simp_all
  finally show ?thesis by simp
qed

lemma double_error_unit:
  assumes "0 \<le> x" "x \<le> 1"
  shows "\<bar>double x - x\<bar> \<le> 1 / 2 ^ 53"
proof (cases "x = 0")
  case True
  then show ?thesis by simp
next
  case False
  with assms have x: "0 < x" by simp
  have "log 2 x \<le> 0" using x assms(2) by simp
  then have "\<lfloor>log 2 x\<rfloor> \<le> 0" by (simp add: floor_le_zero)
  then have "double_exponent x \<le> - 52" using x by (simp add: double_exponent_def)
  then have "(2::real) powi double_exponent x \<le> 2 powi (- 52)"
    by (intro power_int_increasing) simp_all
  with double_error[of x] show ?thesis by (simp add: power_int_minus field_simps)
qed

lemma double_unit:
  assumes "0 \<le> x" "x \<le> 1"
  shows "0 \<le> double x" and "double x \<le> 1"
  using double_nonneg[OF assms(1)] double_mono[OF assms] by simp_all

lemma double_c07 [simp]: "double (3152519739159347 / 4503599627370496) = 3152519739159347 / 4503599627370496"
  by (subst double_eval[where e = "-1"]) (simp_all add: round_half_even_def)

lemma double_c03 [simp]: "double (5404319552844595 / 18014398509481984) = 5404319552844595 / 18014398509481984"
  by (subst double_eval[where e = "-2"]) (simp_all add: round_half_even_def)

lemma double_weights_sum:
  "double (3152519739159347 / 4503599627370496 + 5404319552844595 / 18014398509481984) = 1"
  by (subst double_eval[where e = "-1"]) (simp_all add: round_half_even_def)

lemma fadd_weights: "fadd 0.7 0.3 = 1"
  using double_weights_sum by (simp add: fadd_def double_07 double_03)

lemma fmul_weight_bounds:
  assumes "0 \<le> s" "s \<le> 1" "0 \<le> c" "c \<le> 1" "double c = c"
  shows "0 \<le> fmul s c" and "fmul s c \<le> c" and "\<bar>fmul s c - s * c\<bar> \<le> 2 / 2 ^ 53"
proof -
  let ?ds = "double s"
  from double_unit[OF assms(1,2)] have ds: "0 \<le> ?ds" "?ds \<le> 1" .
  have p0: "0 \<le> ?ds * c" using ds assms by simp
  have p1: "?ds * c \<le> c" using ds assms by (simp add: mult_left_le_one_le)
  have f: "fmul s c = double (?ds * c)" by (simp add: fmul_def assms(5))
  show "0 \<le> fmul s c" unfolding f by (rule double_nonneg[OF p0])
  from double_mono[OF p0 p1] show "fmul s c \<le> c" unfolding f by (simp add: assms(5))
  from p1 assms have p1': "?ds * c \<le> 1" by simp
  have e1: "\<bar>double (?ds * c) - ?ds * c\<bar> \<le> 1 / 2 ^ 53" by (rule double_error_unit[OF p0 p1'])
  have e2: "\<bar>?ds - s\<bar> \<le> 1 / 2 ^ 53" by (rule double_error_unit[OF assms(1,2)])
  have "\<bar>?ds * c - s * c\<bar> = \<bar>?ds - s\<bar> * c" using assms(3) by (simp add: abs_mult left_diff_distrib[symmetric])
  also have "\<dots> \<le> \<bar>?ds - s\<bar> * 1" using assms(4) by (intro mult_left_mono) simp_all
  finally have e3: "\<bar>?ds * c - s * c\<bar> \<le> 1 / 2 ^ 53" using e2 by simp
  from e1[unfolded abs_le_iff] e3[unfolded abs_le_iff]
  show "\<bar>fmul s c - s * c\<bar> \<le> 2 / 2 ^ 53" unfolding f abs_le_iff by (intro conjI) linarith+
qed

lemma final_score_bounds:
  assumes "0 \<le> s" "s \<le> 1" "0 \<le> r" "r \<le> 1"
  shows "0 \<le> final_score_of s r" and "final_score_of s r \<le> 1"
    and "\<bar>final_score_of s r - (0.7 * s + 0.3 * r)\<bar> \<le> 9 / 2 ^ 53"
proof -
  let ?c7 = "3152519739159347 / 4503599627370496 :: real"
  let ?c3 = "5404319552844595 / 18014398509481984 :: real"
  let ?p = "double (double s * ?c7)" and ?q = "double (double r * ?c3)"
  have p: "fmul s 0.7 = ?p" and q: "fmul r 0.3 = ?q" by (simp_all add: fmul_def double_07 double_03)
  have "fmul s ?c7 = ?p" "fmul r ?c3 = ?q" by (simp_all add: fmul_def)
  with fmul_weight_bounds[OF assms(1,2), of ?c7] fmul_weight_bounds[OF assms(3,4), of ?c3]
  have pb: "0 \<le> ?p" "?p \<le> ?c7" "\<bar>?p - s * ?c7\<bar> \<le> 2 / 2 ^ 53"
    and qb: "0 \<le> ?q" "?q \<le> ?c3" "\<bar>?q - r * ?c3\<bar> \<le> 2 / 2 ^ 53"
    by simp_all
  have f: "final_score_of s r = double (double ?p + double ?q)"
    by (simp add: final_score_of_def fadd_def p q)
  have dp: "0 \<le> double ?p" "double ?p \<le> ?c7"
    using double_nonneg[OF pb(1)] double_mono[OF pb(1,2)] by simp_all
  have dq: "0 \<le> double ?q" "double ?q \<le> ?c3"
    using double_nonneg[OF qb(1)] double_mono[OF qb(1,2)] by simp_all
  have s0: "0 \<le> double ?p + double ?q" using dp dq by simp
  have s1: "double ?p + double ?q \<le> ?c7 + ?c3" using dp dq by simp
  show "0 \<le> final_score_of s r" unfolding f by (rule double_nonneg[OF s0])
  from double_mono[OF s0 s1] show "final_score_of s r \<le> 1"
    unfolding f by (simp only: double_weights_sum)
  have s1': "double ?p + double ?q \<le> 1" using s1 by simp
  have e0: "\<bar>double (double ?p + double ?q) - (double ?p + double ?q)\<bar> \<le> 1 / 2 ^ 53"
    by (rule double_error_unit[OF s0 s1'])
  have p1: "?p \<le> 1" and q1: "?q \<le> 1" using pb qb by simp_all
  have e1: "\<bar>double ?p - ?p\<bar> \<le> 1 / 2 ^ 53" by (rule double_error_unit[OF pb(1) p1])
  have e2: "\<bar>double ?q - ?q\<bar> \<le> 1 / 2 ^ 53" by (rule double_error_unit[OF qb(1) q1])
  have "\<bar>s * ?c7 - 0.7 * s\<bar> = s * \<bar>?c7 - 0.7\<bar>"
    using assms(1) by (simp add: abs_mult right_diff_distrib[symmetric] mult.commute)
  also have "\<dots> \<le> 1 * \<bar>?c7 - 0.7\<bar>" using assms(2) by (intro mult_right_mono) simp_all
  also have "\<dots> \<le> 1 / 2 ^ 53" by simp
  finally have e3: "\<bar>s * ?c7 - 0.7 * s\<bar> \<le> 1 / 2 ^ 53" .
  have "\<bar>r * ?c3 - 0.3 * r\<bar> = r * \<bar>?c3 - 0.3\<bar>"
    using assms(3) by (simp add: abs_mult right_diff_distrib[symmetric] mult.commute)
  also have "\<dots> \<le> 1 * \<bar>?c3 - 0.3\<bar>" using assms(4) by (intro mult_right_mono) simp_all
  also have "\<dots> \<le> 1 / 2 ^ 53" by simp
  finally have e4: "\<bar>r * ?c3 - 0.3 * r\<bar> \<le> 1 / 2 ^ 53" .
  note b = e0[unfolded abs_le_iff] e1[unfolded abs_le_iff] e2[unfolded abs_le_iff]
    e3[unfolded abs_le_iff] e4[unfolded abs_le_iff] pb(3)[unfolded abs_le_iff]
    qb(3)[unfolded abs_le_iff]
  from b show "\<bar>final_score_of s r - (0.7 * s + 0.3 * r)\<bar> \<le> 9 / 2 ^ 53"
    unfolding f abs_le_iff by (intro conjI) linarith+
qed

lemma final_score_near_one:
  "final_score_of (9007199254740991 / 9007199254740992) 1 = 4503599627370495 / 4503599627370496"
proof -
  have a: "double (9007199254740991 / 9007199254740992) = 9007199254740991 / 9007199254740992"
    by (subst double_eval[where e = "-1"]) (simp_all add: round_half_even_def)
  have b: "double (9007199254740991 / 9007199254740992 * (3152519739159347 / 4503599627370496))
             = 6305039478318693 / 9007199254740992"
    by (subst double_eval[where e = "-1"]) (simp_all add: round_half_even_def)
  have c: "double (6305039478318693 / 9007199254740992) = 6305039478318693 / 9007199254740992"
    by (subst double_eval[where e = "-1"]) (simp_all add: round_half_even_def)
  have d: "double (6305039478318693 / 9007199254740992 + 5404319552844595 / 18014398509481984)
             = 4503599627370495 / 4503599627370496"
    by (subst double_eval[where e = "-1"]) (simp_all add: round_half_even_def)
  have m1: "fmul (9007199254740991 / 9007199254740992) 0.7 = 6305039478318693 / 9007199254740992"
    unfolding fmul_def a double_07 by (rule b)
  have m2: "fmul 1 0.3 = 5404319552844595 / 18014398509481984"
    by (simp only: fmul_def double_1 double_03 mult_1 double_c03)
  show ?thesis
    unfolding final_score_of_def m1 m2 fadd_def c double_c03 by (rule d)
qed

lemma fsub_self [simp]: "fsub a a = 0"
  by (simp add: fsub_def)

lemma fmul_zero [simp]: "fmul 0 b = 0"
  by (simp add: fmul_def)

lemma fsub_one_zero: "fsub 1 0 = 1"
  by (simp add: fsub_def)

lemma double_half: "double (1 / 2) = 1 / 2"
  by (subst double_eval[where e = "-1"]) (simp_all add: round_half_even_def)

lemma double_095: "double (19 / 20) = 4278419646001971 / 4503599627370496"
  by (subst double_eval[where e = "-1"]) (simp_all add: round_half_even_def)

lemma fmul_one_weights:
  "fmul 1 0.7 = 3152519739159347 / 4503599627370496"
  "fmul 1 0.3 = 5404319552844595 / 18014398509481984"
  by (simp_all only: fmul_def double_1 double_07 double_03 mult_1 double_c07 double_c03)

lemma final_score_one_one: "final_score_of 1 1 = 1"
  unfolding final_score_of_def fmul_one_weights fadd_def double_c07 double_c03
  by (rule double_weights_sum)

lemma final_score_one_half:
  "final_score_of 1 (1 / 2) = 7656119366529843 / 9007199254740992"
proof -
  have a: "double (1 / 2 * (5404319552844595 / 18014398509481984))
             = 5404319552844595 / 36028797018963968"
    by (subst double_eval[where e = "-3"]) (simp_all add: round_half_even_def)
  have b: "double (5404319552844595 / 36028797018963968) = 5404319552844595 / 36028797018963968"
    by (subst double_eval[where e = "-3"]) (simp_all add: round_half_even_def)
  have c: "double (3152519739159347 / 4503599627370496 + 5404319552844595 / 36028797018963968)
             = 7656119366529843 / 9007199254740992"
    by (subst double_eval[where e = "-1"]) (simp_all add: round_half_even_def)
  have m: "fmul (1 / 2) 0.3 = 5404319552844595 / 36028797018963968"
    unfolding fmul_def double_half double_03 by (rule a)
  show ?thesis
    unfolding final_score_of_def fmul_one_weights m fadd_def double_c07 b by (rule c)
qed

lemma fsub_one_ulp: "fsub 1 (1 / 2 ^ 53) = 9007199254740991 / 9007199254740992"
proof -
  have a: "double (1 / 2 ^ 53) = 1 / 2 ^ 53"
    by (subst double_eval[where e = "-53"]) (simp_all add: round_half_even_def)
  have b: "double (1 - 1 / 2 ^ 53) = 9007199254740991 / 9007199254740992"
    by (subst double_eval[where e = "-1"]) (simp_all add: round_half_even_def)
  show ?thesis unfolding fsub_def double_1 a by (rule b)
qed

lemma fsub_one_ulp_numeral:
  "fsub 1 (1 / 9007199254740992) = 9007199254740991 / 9007199254740992"
  using fsub_one_ulp by simp

lemmas demo_floats =
  fsub_one_zero fsub_self final_score_one_one final_score_one_half double_095

lemma recency_cases:
  assumes "calculate_recency_score env c w = (Inr s, w')"
  shows "s = 1 \<or> s = 0.7 \<or> s = 0.5"
  using assms
  by (auto simp: calculate_recency_score_def io_bind_Inr datetime_now_utc_def Let_def split: if_splits)

lemma recency_frame:
  assumes "calculate_recency_score env c w = (r, w')"
  shows "w' = w\<lparr>clock_reads := Suc (clock_reads w)\<rparr>"
  using assms
  by (auto simp: calculate_recency_score_def io_bind_def datetime_now_utc_def Let_def datetime_sub_def split: if_splits prod.splits sum.splits option.splits)

lemma make_item_of_row:
  assumes "make_knowledge_item env row (row_similarity row) rec (final_score_of (row_similarity row) rec) = Inr it"
    and "rec = 1 \<or> rec = 0.7 \<or> rec = 0.5"
  shows "item_of_row it row"
  using assms
  by (auto simp: make_knowledge_item_def item_of_row_def split: option.splits sum.splits)

lemma score_rows_items:
  "score_rows env ms rows w = (Inr items, w') \<Longrightarrow>
     list_all2 item_of_row items (filter (\<lambda>r. \<not> row_similarity r < ms) rows)"
proof (induction rows arbitrary: w items w')
  case Nil
  then show ?case by simp
next
  case (Cons row rows)
  show ?case
  proof (cases "row_similarity row < ms")
    case True
    with Cons show ?thesis by (simp add: Let_def)
  next
    case False
    from Cons.prems False obtain rec w1 it rest where
      r: "calculate_recency_score env (row_created_at row) w = (Inr rec, w1)" and
      m: "make_knowledge_item env row (row_similarity row) rec (final_score_of (row_similarity row) rec) = Inr it" and
      s: "score_rows env ms rows w1 = (Inr rest, w')" and
      e: "items = it # rest"
      by (auto simp: Let_def io_bind_Inr)
    from recency_cases[OF r] m have "item_of_row it row" by (rule make_item_of_row[rotated])
    moreover from Cons.IH[OF s] have "list_all2 item_of_row rest (filter (\<lambda>r. \<not> row_similarity r < ms) rows)" .
    ultimately show ?thesis using False e by simp
  qed
qed

lemma db_statements_append [simp]:
  "db_statements (xs @ ys) = db_statements xs @ db_statements ys"
  by (induction xs rule: db_statements.induct) auto

lemma io_bind_cases:
  assumes "io_bind m f w = (r, w')"
  obtains (raised) e where "m w = (Inl e, w')" "r = Inl e"
        | (returned) x w1 where "m w = (Inr x, w1)" "f x w1 = (r, w')"
  using assms by (auto simp: io_bind_def split: prod.splits sum.splits)

lemma get_embedding_frame:
  assumes "get_embedding env t w = (r, w')"
  shows "\<exists>new. w' = w\<lparr>trace := trace w @ new\<rparr> \<and> db_statements new = []"
proof -
  let ?ev = "EmbeddingsCreate (embedding_model (settings env)) t"
  show ?thesis
  proof (cases "embeddings_create env (length (trace w)) (embedding_model (settings env)) t")
    case (Inl e)
    with assms have "w' = w\<lparr>trace := trace w @ [?ev]\<rparr>"
      by (auto simp: get_embedding_def io_bind_def external_def)
    then show ?thesis by (intro exI[of _ "[?ev]"]) simp
  next
    case (Inr data)
    show ?thesis
    proof (cases data)
      case Nil
      with Inr assms have "w' = w\<lparr>trace := trace w @ [?ev]\<rparr>"
        by (auto simp: get_embedding_def io_bind_def external_def)
      then show ?thesis by (intro exI[of _ "[?ev]"]) simp
    next
      case (Cons v vs)
      with Inr assms obtain msg where "w' = w\<lparr>trace := trace w @ [?ev, Log DEBUG msg]\<rparr>"
        by (auto simp: get_embedding_def io_bind_def external_def logger_def)
      then show ?thesis by (intro exI[of _ "[?ev, Log DEBUG msg]"]) simp
    qed
  qed
qed

lemma get_connection_frame:
  assumes "get_connection env w = (r, w')"
  shows "w' = w\<lparr>trace := trace w @ [DbAcquire]\<rparr>"
  using assms by (auto simp: get_connection_def external_def)

lemma knowledge_select_frame:
  assumes "knowledge_select env e k w = (r, w')"
  shows "w' = w\<lparr>trace := trace w @ [DbExecute (KnowledgeSelect e k)]\<rparr>"
  using assms
  by (auto simp: knowledge_select_def db_execute_def external_def io_bind_def
           split: option.splits if_splits)

lemma knowledge_select_Inr:
  assumes "knowledge_select env e k w = (Inr rows, w')"
  shows "0 \<le> k \<and> rows = knowledge_candidates env e k (knowledge_base w)"
  using assms
  by (auto simp: knowledge_select_def db_execute_def external_def io_bind_def
           split: option.splits if_splits)

lemma score_rows_world:
  assumes "score_rows env ms rows w = (r, w')"
  shows "\<exists>n. w' = w\<lparr>clock_reads := n\<rparr>"
  using assms
proof (induction rows arbitrary: w r w')
  case Nil
  then have "w' = w\<lparr>clock_reads := clock_reads w\<rparr>" by simp
  then show ?case by blast
next
  case (Cons row rows)
  show ?case
  proof (cases "row_similarity row < ms")
    case True
    with Cons show ?thesis by (simp add: Let_def)
  next
    case False
    with Cons.prems have b: "io_bind (calculate_recency_score env (row_created_at row)) (\<lambda>recency.
              let final_score = final_score_of (row_similarity row) recency
              in io_bind (io_lift (make_knowledge_item env row (row_similarity row) recency final_score))
                   (\<lambda>item.
              io_bind (score_rows env ms rows) (\<lambda>items.
              io_return (item # items)))) w = (r, w')" by (simp add: Let_def)
    from b show ?thesis
    proof (cases rule: io_bind_cases)
      case (raised e)
      from recency_frame[OF raised(1)] show ?thesis by blast
    next
      case (returned rec w1)
      from recency_frame[OF returned(1)] have w1: "w1 = w\<lparr>clock_reads := Suc (clock_reads w)\<rparr>" .
      from returned(2) have "io_bind (io_lift (make_knowledge_item env row (row_similarity row) rec (final_score_of (row_similarity row) rec)))
                   (\<lambda>item. io_bind (score_rows env ms rows) (\<lambda>items. io_return (item # items))) w1 = (r, w')"
        by (simp add: Let_def)
      then show ?thesis
      proof (cases rule: io_bind_cases)
        case (raised e)
        with w1 show ?thesis by auto
      next
        case (returned it w2)
        then have w2: "w2 = w1" by simp
        from returned(2) show ?thesis
        proof (cases rule: io_bind_cases)
          case (raised e)
          from Cons.IH[OF raised(1)] w1 w2 show ?thesis by auto
        next
          case (returned its w3)
          from Cons.IH[OF returned(1)] returned(2) w1 w2 show ?thesis by auto
        qed
      qed
    qed
  qed
qed

lemma logger_frame [simp]:
  "logger lvl msg w = (r, w') \<longleftrightarrow> r = Inr () \<and> w' = w\<lparr>trace := trace w @ [Log lvl msg]\<rparr>"
  by (auto simp: logger_def)

lemma vector_search_returns:
  assumes kw: "keywords \<noteq> []"
    and run: "vector_search env keywords limit ms w = (Inr results, w')"
  shows "\<exists>emb items new.
           list_all2 item_of_row items
             (filter (\<lambda>r. \<not> row_similarity r < ms)
                (knowledge_candidates env emb (2 * limit_or_default env limit) (knowledge_base w)))
         \<and> results = take (nat (limit_or_default env limit)) (sort_key (\<lambda>x. - ki_final_score x) items)
         \<and> 0 \<le> limit_or_default env limit
         \<and> trace w' = trace w @ new
         \<and> db_statements new = [KnowledgeSelect emb (2 * limit_or_default env limit)]"
proof -
  let ?L = "limit_or_default env limit"
  from kw run obtain qe w1 w2 rows w3 items w4 msg where
    e: "get_embedding env (py_join (ustr '' '') keywords) w = (Inr qe, w1)" and
    c: "get_connection env w1 = (Inr (), w2)" and
    s: "knowledge_select env (embedding_to_pgvector env qe) (?L * 2) w2 = (Inr rows, w3)" and
    sc: "score_rows env ms rows w3 = (Inr items, w4)" and
    res: "results = py_slice_to (sort_key (\<lambda>x. - ki_final_score x) items) ?L" and
    w': "w' = w4\<lparr>trace := trace w4 @ [Log INFO msg]\<rparr>"
    by (auto simp: vector_search_def Let_def io_bind_Inr)
  let ?emb = "embedding_to_pgvector env qe"
  from get_embedding_frame[OF e] obtain n1 where
    w1: "w1 = w\<lparr>trace := trace w @ n1\<rparr>" and n1: "db_statements n1 = []" by blast
  from get_connection_frame[OF c] have w2: "w2 = w1\<lparr>trace := trace w1 @ [DbAcquire]\<rparr>" .
  from knowledge_select_frame[OF s]
  have w3: "w3 = w2\<lparr>trace := trace w2 @ [DbExecute (KnowledgeSelect ?emb (?L * 2))]\<rparr>" .
  from knowledge_select_Inr[OF s]
  have k: "0 \<le> ?L * 2" and rows: "rows = knowledge_candidates env ?emb (?L * 2) (knowledge_base w2)"
    by auto
  from score_rows_world[OF sc] obtain n where w4: "w4 = w3\<lparr>clock_reads := n\<rparr>" by blast
  have kb: "knowledge_base w2 = knowledge_base w" using w1 w2 by simp
  have L: "0 \<le> ?L" using k by simp
  have tr: "trace w' = trace w @ (n1 @ [DbAcquire, DbExecute (KnowledgeSelect ?emb (?L * 2)), Log INFO msg])"
    using w' w4 w3 w2 w1 by simp
  have st: "db_statements (n1 @ [DbAcquire, DbExecute (KnowledgeSelect ?emb (?L * 2)), Log INFO msg])
              = [KnowledgeSelect ?emb (2 * ?L)]"
    using n1 by (simp add: mult.commute)
  from score_rows_items[OF sc] rows kb
  have it: "list_all2 item_of_row items
             (filter (\<lambda>r. \<not> row_similarity r < ms) (knowledge_candidates env ?emb (2 * ?L) (knowledge_base w)))"
    by (simp add: mult.commute)
  have res': "results = take (nat ?L) (sort_key (\<lambda>x. - ki_final_score x) items)"
    using res L by (simp add: py_slice_to_def)
  from it res' L tr st show ?thesis by blast
qed

lemma vector_search_statements:
  assumes kw: "keywords \<noteq> []"
    and run: "vector_search env keywords limit ms w = (r, w')"
  shows "\<exists>new. trace w' = trace w @ new \<and>
           (db_statements new = [] \<or>
            (\<exists>emb. db_statements new = [KnowledgeSelect emb (2 * limit_or_default env limit)]))"
proof -
  let ?L = "limit_or_default env limit"
  from kw run have b: "io_bind (get_embedding env (py_join (ustr '' '') keywords)) (\<lambda>query_embedding.
           let embedding_str = embedding_to_pgvector env query_embedding
           in io_bind (get_connection env) (\<lambda>_.
              io_bind (knowledge_select env embedding_str (?L * 2)) (\<lambda>rows.
              io_bind (score_rows env ms rows) (\<lambda>items.
              let sorted_items = sort_key (\<lambda>x. - ki_final_score x) items;
                  results = py_slice_to sorted_items ?L
              in io_bind (logger INFO
                   (ustr ''Vector search found '' @ str_nat (length results)
                      @ ustr '' results (min_sim='' @ str_value env (JFloat ms)
                      @ ustr '') for keywords: '' @ str_value env (JList (map JStr keywords))))
                   (\<lambda>_. io_return results))))) w = (r, w')"
    by (simp add: vector_search_def Let_def)
  from b show ?thesis
  proof (cases rule: io_bind_cases)
    case (raised e)
    from get_embedding_frame[OF raised(1)] show ?thesis by auto
  next
    case (returned qe w1)
    let ?emb = "embedding_to_pgvector env qe"
    from get_embedding_frame[OF returned(1)] obtain n1 where
      w1: "w1 = w\<lparr>trace := trace w @ n1\<rparr>" and n1: "db_statements n1 = []" by blast
    from returned(2) have "io_bind (get_connection env) (\<lambda>_.
              io_bind (knowledge_select env ?emb (?L * 2)) (\<lambda>rows.
              io_bind (score_rows env ms rows) (\<lambda>items.
              let sorted_items = sort_key (\<lambda>x. - ki_final_score x) items;
                  results = py_slice_to sorted_items ?L
              in io_bind (logger INFO
                   (ustr ''Vector search found '' @ str_nat (length results)
                      @ ustr '' results (min_sim='' @ str_value env (JFloat ms)
                      @ ustr '') for keywords: '' @ str_value env (JList (map JStr keywords))))
                   (\<lambda>_. io_return results)))) w1 = (r, w')"
      by (simp add: Let_def)
    then show ?thesis
    proof (cases rule: io_bind_cases)
      case (raised e)
      from get_connection_frame[OF raised(1)] w1 n1
      have "trace w' = trace w @ (n1 @ [DbAcquire])" "db_statements (n1 @ [DbAcquire]) = []" by auto
      then show ?thesis by blast
    next
      case (returned u w2)
      from get_connection_frame[OF returned(1)] have w2: "w2 = w1\<lparr>trace := trace w1 @ [DbAcquire]\<rparr>" .
      from returned(2) show ?thesis
      proof (cases rule: io_bind_cases)
        case (raised e)
        from knowledge_select_frame[OF raised(1)] w1 w2 n1
        have "trace w' = trace w @ (n1 @ [DbAcquire, DbExecute (KnowledgeSelect ?emb (?L * 2))])"
          "db_statements (n1 @ [DbAcquire, DbExecute (KnowledgeSelect ?emb (?L * 2))]) = [KnowledgeSelect ?emb (2 * ?L)]"
          by (auto simp: mult.commute)
        then show ?thesis by blast
      next
        case (returned rows w3)
        from knowledge_select_frame[OF returned(1)]
        have w3: "w3 = w2\<lparr>trace := trace w2 @ [DbExecute (KnowledgeSelect ?emb (?L * 2))]\<rparr>" .
        from returned(2) show ?thesis
        proof (cases rule: io_bind_cases)
          case (raised e)
          from score_rows_world[OF raised(1)] w1 w2 w3 n1
          have "trace w' = trace w @ (n1 @ [DbAcquire, DbExecute (KnowledgeSelect ?emb (?L * 2))])"
            "db_statements (n1 @ [DbAcquire, DbExecute (KnowledgeSelect ?emb (?L * 2))]) = [KnowledgeSelect ?emb (2 * ?L)]"
            by (auto simp: mult.commute)
          then show ?thesis by blast
        next
          case (returned items w4)
          from score_rows_world[OF returned(1)] obtain n where w4: "w4 = w3\<lparr>clock_reads := n\<rparr>" by blast
          from returned(2) obtain msg where "w' = w4\<lparr>trace := trace w4 @ [Log INFO msg]\<rparr>"
            by (auto simp: Let_def io_bind_def split: prod.splits sum.splits)
          with w1 w2 w3 w4 n1
          have "trace w' = trace w @ (n1 @ [DbAcquire, DbExecute (KnowledgeSelect ?emb (?L * 2)), Log INFO msg])"
            "db_statements (n1 @ [DbAcquire, DbExecute (KnowledgeSelect ?emb (?L * 2)), Log INFO msg]) = [KnowledgeSelect ?emb (2 * ?L)]"
            by (auto simp: mult.commute)
          then show ?thesis by blast
        qed
      qed
    qed
  qed
qed

lemmas demo_defs =
  demo_env_def demo_settings_def demo_world_def demo_doc_def demo_item_def demo_recent_def
  demo_older_def ustr_def str_int_def str_nat.simps

lemmas run_defs =
  vector_search_def limit_or_default_def get_embedding_def embedding_to_pgvector_def
  get_connection_def knowledge_select_def knowledge_candidates_def knowledge_record_of_def
  db_execute_def external_def logger_def io_bind_def io_return_def io_raise_def io_lift_def
  calculate_recency_score_def datetime_now_utc_def datetime_sub_def timedelta_days_def
  make_knowledge_item_def load_metadata_def SourceType_of_value_def
  py_slice_to_def py_error_def Let_def

lemma demo_search_limit_1:
  "\<exists>w'. vector_search demo_env [ustr ''rag''] (Some 1) (1/2) demo_world = (Inr [demo_recent], w')"
  by (simp add: run_defs demo_defs demo_floats)

lemma demo_search_limit_0:
  "\<exists>w'. vector_search demo_env [ustr ''rag''] (Some 0) (1/2) demo_world
          = (Inr [demo_recent, demo_older], w')"
  by (simp add: run_defs demo_defs demo_floats)

lemma demo_search_near:
  "\<exists>w'. vector_search demo_env_near [ustr ''rag''] (Some 1) (1/2) demo_world_near
          = (Inr [demo_near], w')"
  by (simp add: run_defs demo_defs demo_env_near_def demo_world_near_def demo_near_def
        fsub_one_ulp_numeral final_score_near_one)

lemma list_all2_in_set1:
  "list_all2 P xs ys \<Longrightarrow> x \<in> set xs \<Longrightarrow> \<exists>y \<in> set ys. P x y"
  by (induction rule: list_all2_induct) auto

lemma vector_search_item:
  assumes "vector_search env keywords limit ms w = (Inr results, w')" and "it \<in> set results"
  shows "\<exists>r. item_of_row it r \<and> \<not> row_similarity r < ms"
proof (cases "keywords = []")
  case True
  with assms show ?thesis by (simp add: vector_search_def)
next
  case False
  from vector_search_returns[OF False assms(1)] obtain emb items where
    a: "list_all2 item_of_row items
             (filter (\<lambda>r. \<not> row_similarity r < ms)
                (knowledge_candidates env emb (2 * limit_or_default env limit) (knowledge_base w)))"
    and b: "results = take (nat (limit_or_default env limit)) (sort_key (\<lambda>x. - ki_final_score x) items)"
    by blast
  from assms(2) b have "it \<in> set items" by (auto dest: in_set_takeD)
  from list_all2_in_set1[OF a this] show ?thesis by auto
qed

text \<open>
  Claim C1, amended. Every item that the knowledge-tier search returns has as final score
  the value of the float expression \<open>similarity * 0.7 + recency * 0.3\<close>: the two
  products and the sum, each rounded to the nearest double. Its recency sub-score is in
  \<open>[0,1]\<close>. For all \<open>s\<close> and \<open>r\<close> in \<open>[0,1]\<close> this final score lies in \<open>[0,1]\<close> and
  differs from the exact \<open>0.7 * s + 0.3 * r\<close> by at most \<open>9 / 2 ^ 53\<close>. The weights sum
  to 1, as real numbers and as floats.
\<close>

theorem C1_final_score_rounded_combination:
  assumes "vector_search env keywords limit ms w = (Inr results, w')" and "it \<in> set results"
  shows "ki_final_score it
           = fadd (fmul (ki_similarity it) 0.7) (fmul (ki_recency_score it) 0.3)
       \<and> 0 \<le> ki_recency_score it \<and> ki_recency_score it \<le> 1
       \<and> (0 \<le> ki_similarity it \<and> ki_similarity it \<le> 1 \<longrightarrow>
            0 \<le> ki_final_score it \<and> ki_final_score it \<le> 1
          \<and> \<bar>ki_final_score it - (0.7 * ki_similarity it + 0.3 * ki_recency_score it)\<bar>
               \<le> 9 / 2 ^ 53)
       \<and> (\<forall>s r. 0 \<le> s \<and> s \<le> 1 \<and> 0 \<le> r \<and> r \<le> 1 \<longrightarrow>
            final_score_of s r = fadd (fmul s 0.7) (fmul r 0.3)
          \<and> 0 \<le> final_score_of s r \<and> final_score_of s r \<le> 1
          \<and> \<bar>final_score_of s r - (0.7 * s + 0.3 * r)\<bar> \<le> 9 / 2 ^ 53)
       \<and> fadd 0.7 0.3 = 1
       \<and> (0.7::real) + 0.3 = 1"
proof -
  from vector_search_item[OF assms] obtain r where "item_of_row it r" by blast
  then have f: "ki_final_score it = final_score_of (ki_similarity it) (ki_recency_score it)"
    and rc: "0 \<le> ki_recency_score it" "ki_recency_score it \<le> 1"
    by (auto simp: item_of_row_def)
  have g: "\<forall>s r. 0 \<le> s \<and> s \<le> 1 \<and> 0 \<le> r \<and> r \<le> 1 \<longrightarrow>
            final_score_of s r = fadd (fmul s 0.7) (fmul r 0.3)
          \<and> 0 \<le> final_score_of s r \<and> final_score_of s r \<le> 1
          \<and> \<bar>final_score_of s r - (0.7 * s + 0.3 * r)\<bar> \<le> 9 / 2 ^ 53"
    using final_score_bounds final_score_of_def by blast
  have e: "ki_final_score it
             = fadd (fmul (ki_similarity it) 0.7) (fmul (ki_recency_score it) 0.3)"
    unfolding f by (rule final_score_of_def)
  have h: "0 \<le> ki_similarity it \<and> ki_similarity it \<le> 1 \<longrightarrow>
            0 \<le> ki_final_score it \<and> ki_final_score it \<le> 1
          \<and> \<bar>ki_final_score it - (0.7 * ki_similarity it + 0.3 * ki_recency_score it)\<bar>
               \<le> 9 / 2 ^ 53"
    unfolding f using final_score_bounds[of "ki_similarity it" "ki_recency_score it"] rc by blast
  have one: "(0.7::real) + 0.3 = 1" by simp
  from e rc h g fadd_weights one show ?thesis by blast
qed

text \<open>The search of the concrete store with limit 1 returns the item of similarity 1 and
  recency 1, whose final score is 1; and the score of similarity 1 with recency 0.5 is
  the double nearest to 0.85.\<close>

theorem C1_witness:
  "\<exists>w'. vector_search demo_env [ustr ''rag''] (Some 1) (1/2) demo_world = (Inr [demo_recent], w')
      \<and> ki_similarity demo_recent = 1 \<and> ki_recency_score demo_recent = 1
      \<and> ki_final_score demo_recent = fadd (fmul 1 0.7) (fmul 1 0.3)
      \<and> ki_final_score demo_recent = 1
      \<and> final_score_of 1 (1/2) = 7656119366529843 / 9007199254740992
      \<and> \<bar>final_score_of 1 (1/2) - (0.7 * 1 + 0.3 * (1/2))\<bar> \<le> 9 / 2 ^ 53"
proof -
  from demo_search_limit_1 obtain w' where
    run: "vector_search demo_env [ustr ''rag''] (Some 1) (1/2) demo_world = (Inr [demo_recent], w')"
    by blast
  have mem: "demo_recent \<in> set [demo_recent]" by simp
  note c = C1_final_score_rounded_combination[OF run mem]
  have v: "ki_similarity demo_recent = 1" "ki_recency_score demo_recent = 1"
    "ki_final_score demo_recent = 1"
    by (simp_all add: demo_recent_def)
  from c have "ki_final_score demo_recent
      = fadd (fmul (ki_similarity demo_recent) 0.7) (fmul (ki_recency_score demo_recent) 0.3)"
    by blast
  with v have a: "ki_final_score demo_recent = fadd (fmul 1 0.7) (fmul 1 0.3)" by simp
  from c have "0 \<le> (1::real) \<and> (1::real) \<le> 1 \<and> 0 \<le> (1/2::real) \<and> (1/2::real) \<le> 1 \<longrightarrow>
     \<bar>final_score_of 1 (1/2) - (0.7 * 1 + 0.3 * (1/2))\<bar> \<le> 9 / 2 ^ 53" by blast
  then have b: "\<bar>final_score_of 1 (1/2) - (0.7 * 1 + 0.3 * (1/2))\<bar> \<le> 9 / 2 ^ 53" by simp
  from run v a b final_score_one_half show ?thesis by blast
qed

text \<open>
  Claim C1 as stated fails in floats. With a document at similarity
  \<open>0.9999999999999999\<close> (one minus \<open>2 powi -53\<close>) and recency 1, the search returns the
  final score \<open>0.9999999999999998\<close> (one minus \<open>2 powi -52\<close>): not the exact
  \<open>0.7 * s + 0.3 * r\<close>, and below both sub-scores.
\<close>

theorem C1_counterexample:
  "fst (vector_search demo_env_near [ustr ''rag''] (Some 1) (1/2) demo_world_near)
     = Inr [demo_near]
 \<and> ki_similarity demo_near = 1 - 1 / 2 ^ 53
 \<and> ki_recency_score demo_near = 1
 \<and> ki_final_score demo_near = 1 - 1 / 2 ^ 52
 \<and> ki_final_score demo_near
      \<noteq> 0.7 * ki_similarity demo_near + 0.3 * ki_recency_score demo_near
 \<and> ki_final_score demo_near < min (ki_similarity demo_near) (ki_recency_score demo_near)"
proof -
  from demo_search_near obtain w' where
    "vector_search demo_env_near [ustr ''rag''] (Some 1) (1/2) demo_world_near
       = (Inr [demo_near], w')" by blast
  then have "fst (vector_search demo_env_near [ustr ''rag''] (Some 1) (1/2) demo_world_near)
     = Inr [demo_near]" by simp
  then show ?thesis by (simp add: demo_near_def)
qed

text \<open>
  Claim C2. For the age \<open>a\<close> of an item in whole days at the moment of scoring, the
  recency sub-score is 1.0 when \<open>a < 7\<close>, 0.7 when \<open>7 \<le> a < 30\<close> and 0.5 when
  \<open>30 \<le> a\<close>; the function always returns, whether or not the timestamp carries a
  time zone.
\<close>

theorem C2_recency_tiers:
  "(age_days env w created_at < 7 \<longrightarrow>
      fst (calculate_recency_score env created_at w) = Inr 1.0)
 \<and> (7 \<le> age_days env w created_at \<and> age_days env w created_at < 30 \<longrightarrow>
      fst (calculate_recency_score env created_at w) = Inr 0.7)
 \<and> (30 \<le> age_days env w created_at \<longrightarrow>
      fst (calculate_recency_score env created_at w) = Inr 0.5)"
  by (auto simp: calculate_recency_score_def age_days_def datetime_now_utc_def datetime_sub_def
        io_bind_def io_lift_def io_return_def Let_def split: option.splits)

text \<open>The boundaries: an age of exactly 7 days scores 0.7, exactly 30 days scores 0.5,
  and one microsecond short of 7 days scores 1.\<close>

theorem C2_witness:
  "age_days demo_env demo_world \<lparr>wall = 93 * 86400000000, tzinfo = None\<rparr> = 7
 \<and> fst (calculate_recency_score demo_env \<lparr>wall = 93 * 86400000000, tzinfo = None\<rparr> demo_world) = Inr 0.7
 \<and> age_days demo_env demo_world \<lparr>wall = 70 * 86400000000, tzinfo = Some 0\<rparr> = 30
 \<and> fst (calculate_recency_score demo_env \<lparr>wall = 70 * 86400000000, tzinfo = Some 0\<rparr> demo_world) = Inr 0.5
 \<and> age_days demo_env demo_world \<lparr>wall = 93 * 86400000000 + 1, tzinfo = None\<rparr> = 6
 \<and> fst (calculate_recency_score demo_env \<lparr>wall = 93 * 86400000000 + 1, tzinfo = None\<rparr> demo_world) = Inr 1"
proof -
  have a7: "age_days demo_env demo_world \<lparr>wall = 93 * 86400000000, tzinfo = None\<rparr> = 7"
    and a30: "age_days demo_env demo_world \<lparr>wall = 70 * 86400000000, tzinfo = Some 0\<rparr> = 30"
    and a6: "age_days demo_env demo_world \<lparr>wall = 93 * 86400000000 + 1, tzinfo = None\<rparr> = 6"
    by (simp_all add: age_days_def timedelta_days_def demo_env_def demo_world_def)
  from a7 C2_recency_tiers[of demo_env demo_world "\<lparr>wall = 93 * 86400000000, tzinfo = None\<rparr>"]
  have s7: "fst (calculate_recency_score demo_env \<lparr>wall = 93 * 86400000000, tzinfo = None\<rparr> demo_world) = Inr 0.7"
    by simp
  from a30 C2_recency_tiers[of demo_env demo_world "\<lparr>wall = 70 * 86400000000, tzinfo = Some 0\<rparr>"]
  have s30: "fst (calculate_recency_score demo_env \<lparr>wall = 70 * 86400000000, tzinfo = Some 0\<rparr> demo_world) = Inr 0.5"
    by simp
  from a6 C2_recency_tiers[of demo_env demo_world "\<lparr>wall = 93 * 86400000000 + 1, tzinfo = None\<rparr>"]
  have s6: "fst (calculate_recency_score demo_env \<lparr>wall = 93 * 86400000000 + 1, tzinfo = None\<rparr> demo_world) = Inr 1"
    by simp
  from a7 s7 a30 s30 a6 s6 show ?thesis by blast
qed

text \<open>
  Claim C3 at the limit 0. The claim has the result cut to at most \<open>limit\<close> items, none
  for the limit 0. With \<open>limit = 0\<close> the search of the concrete store, whose default
  limit is 10, returns both documents above the threshold: \<open>limit or default\<close> takes the
  integer 0 for an absent limit. With \<open>limit = 1\<close> it returns one.
\<close>

theorem C3_limit_zero_returns_items:
  "[ustr ''rag''] \<noteq> []
   \<and> fst (vector_search demo_env [ustr ''rag''] (Some 0) (1/2) demo_world)
       = Inr [demo_recent, demo_older]
   \<and> \<not> int (length [demo_recent, demo_older]) \<le> 0
   \<and> limit_or_default demo_env (Some 0) = 10
   \<and> fst (vector_search demo_env [ustr ''rag''] (Some 1) (1/2) demo_world) = Inr [demo_recent]"
proof -
  from demo_search_limit_0 obtain w' where
    a: "vector_search demo_env [ustr ''rag''] (Some 0) (1/2) demo_world
          = (Inr [demo_recent, demo_older], w')" by blast
  from demo_search_limit_1 obtain w'' where
    b: "vector_search demo_env [ustr ''rag''] (Some 1) (1/2) demo_world
          = (Inr [demo_recent], w'')" by blast
  from a b show ?thesis by (simp add: limit_or_default_def demo_env_def demo_settings_def)
qed

text \<open>
  Claim C6 at the limit 0. The claim has the index asked for exactly \<open>2 * limit\<close>
  candidates, none for the limit 0. With \<open>limit = 0\<close> the search of the concrete store
  sends the candidate query with \<open>LIMIT 20\<close>, twice the default limit 10. With
  \<open>limit = 1\<close> it sends \<open>LIMIT 2\<close>.
\<close>

theorem C6_limit_zero_asks_for_twenty:
  "[ustr ''rag''] \<noteq> []
   \<and> db_statements (trace (snd (vector_search demo_env [ustr ''rag''] (Some 0) (1/2) demo_world)))
       = [KnowledgeSelect (ustr ''[3.0,1.0]'') 20]
   \<and> (20::int) \<noteq> 2 * 0
   \<and> db_statements (trace (snd (vector_search demo_env [ustr ''rag''] (Some 1) (1/2) demo_world)))
       = [KnowledgeSelect (ustr ''[3.0,1.0]'') 2]"
  by (simp add: run_defs demo_defs demo_floats)


lemma io_try_returns:
  assumes "\<And>e w1. \<exists>x w2. h e w1 = (Inr x, w2)"
  shows "\<exists>x w'. io_try m h w = (Inr x, w')"
proof (cases "m w")
  case (Pair r w1)
  show ?thesis
  proof (cases r)
    case (Inl e)
    with Pair assms[of e w1] show ?thesis by (auto simp: io_try_def)
  next
    case (Inr x)
    with Pair show ?thesis by (auto simp: io_try_def)
  qed
qed

lemma search_arxiv_returns:
  "\<exists>results w'. search_arxiv env keywords n w = (Inr results, w')"
proof (cases "keywords = []")
  case True
  then show ?thesis by (simp add: search_arxiv_def)
next
  case False
  have "\<And>e w1. \<exists>x w2. io_bind (logger ERROR (ustr ''arXiv search failed: '' @ str_exn e))
                     (\<lambda>_. io_return ([] :: MCPSearchResult list)) w1 = (Inr x, w2)"
    by (simp add: io_bind_def logger_def io_return_def)
  from io_try_returns[where h="\<lambda>e. io_bind (logger ERROR (ustr ''arXiv search failed: '' @ str_exn e))
                     (\<lambda>_. io_return ([] :: MCPSearchResult list))", OF this]
  show ?thesis using False by (simp add: search_arxiv_def Let_def)
qed

lemma hf_try_block_returns:
  "\<exists>x w'. hf_try_block env keywords url n w = (Inr x, w')"
  unfolding hf_try_block_def
  by (rule io_try_returns) simp

lemma search_huggingface_returns:
  "\<exists>results w'. search_huggingface env keywords n w = (Inr results, w')"
proof (cases "keywords = []")
  case True
  then show ?thesis by (simp add: search_huggingface_def)
next
  case False
  from hf_try_block_returns obtain x w1 where
    b: "hf_try_block env keywords (huggingface_model_url env (py_join (ustr '' '') keywords) n) n w = (Inr x, w1)"
    by blast
  obtain results err where x: "x = (results, err)" by (cases x)
  show ?thesis using False b x
    by (cases err) (auto simp: search_huggingface_def Let_def io_bind_def logger_def io_return_def)
qed

lemma arxiv_transport_failure:
  assumes "keywords \<noteq> []"
    and "http_get env (length (trace w)) ARXIV_API_URL (arxiv_params keywords n) = Inl e"
  shows "search_arxiv env keywords n w
           = (Inr [], w\<lparr>trace := trace w @ [arxiv_request keywords n,
                                             Log ERROR (ustr ''arXiv search failed: '' @ str_exn e)]\<rparr>)"
  using assms
  by (simp add: search_arxiv_def Let_def io_try_def io_bind_def external_def logger_def
        io_return_def arxiv_request_def)

lemma arxiv_status_failure:
  assumes "keywords \<noteq> []"
    and "http_get env (length (trace w)) ARXIV_API_URL (arxiv_params keywords n) = Inr response"
    and "raise_for_status env response = Some e"
  shows "search_arxiv env keywords n w
           = (Inr [], w\<lparr>trace := trace w @ [arxiv_request keywords n,
                                             Log ERROR (ustr ''arXiv search failed: '' @ str_exn e)]\<rparr>)"
  using assms
  by (simp add: search_arxiv_def Let_def io_try_def io_bind_def external_def logger_def
        io_return_def io_lift_def check_status_def arxiv_request_def)

lemma arxiv_parse_failure:
  assumes "keywords \<noteq> []"
    and "http_get env (length (trace w)) ARXIV_API_URL (arxiv_params keywords n) = Inr response"
    and "raise_for_status env response = None"
    and "xml_fromstring env (hr_text response) = Inl msg"
  shows "search_arxiv env keywords n w
           = (Inr [], w\<lparr>trace := trace w @ [arxiv_request keywords n,
                 Log ERROR (ustr ''Failed to parse arXiv XML: '' @ msg),
                 Log INFO (ustr ''arXiv search returned '' @ str_nat 0 @ ustr '' results for: ''
                             @ str_value env (JList (map JStr keywords)))]\<rparr>)"
  using assms
  by (simp add: search_arxiv_def Let_def io_try_def io_bind_def external_def logger_def
        io_return_def io_lift_def check_status_def parse_arxiv_response_def arxiv_request_def)

lemma huggingface_transport_failure:
  assumes "keywords \<noteq> []"
    and "http_get env (length (trace w))
           (huggingface_model_url env (py_join (ustr '' '') keywords) n) [] = Inl e"
  shows "search_huggingface env keywords n w
           = (Inr [], w\<lparr>trace := trace w @ [huggingface_request env keywords n,
                                             Log ERROR (ustr ''HuggingFace search failed: '' @ str_exn e)]\<rparr>)"
  using assms
  by (simp add: search_huggingface_def hf_try_block_def Let_def io_try_def io_bind_def
        external_def logger_def io_return_def huggingface_request_def)

lemma huggingface_status_failure:
  assumes "keywords \<noteq> []"
    and "http_get env (length (trace w))
           (huggingface_model_url env (py_join (ustr '' '') keywords) n) [] = Inr response"
    and "raise_for_status env response = Some e"
  shows "search_huggingface env keywords n w
           = (Inr [], w\<lparr>trace := trace w @ [huggingface_request env keywords n,
                                             Log ERROR (ustr ''HuggingFace search failed: '' @ str_exn e)]\<rparr>)"
  using assms
  by (simp add: search_huggingface_def hf_try_block_def Let_def io_try_def io_bind_def
        external_def logger_def io_return_def io_lift_def check_status_def huggingface_request_def)

lemma huggingface_parse_failure:
  assumes "keywords \<noteq> []"
    and "http_get env (length (trace w))
           (huggingface_model_url env (py_join (ustr '' '') keywords) n) [] = Inr response"
    and "raise_for_status env response = None"
    and "json_loads env (hr_text response) = Inl msg"
  shows "search_huggingface env keywords n w
           = (Inr [], w\<lparr>trace := trace w @ [huggingface_request env keywords n,
                                             Log ERROR (ustr ''HuggingFace search failed: '' @ msg)]\<rparr>)"
  using assms
  by (simp add: search_huggingface_def hf_try_block_def Let_def io_try_def io_bind_def
        external_def logger_def io_return_def io_lift_def check_status_def response_json_def
        huggingface_request_def)

text \<open>
  Neither external search raises: for every environment, keyword list and store,
  \<open>search_arxiv\<close> and \<open>search_huggingface\<close> return a list. When the request fails in
  transport, when the status check fails, or when the body cannot be parsed (XML for the
  first provider, JSON for the second), the result is the empty list and the failure is
  logged at error level.
\<close>

lemma external_search_swallows_failures:
  "(\<exists>results w'. search_arxiv env keywords n w = (Inr results, w'))
 \<and> (\<exists>results w'. search_huggingface env keywords n w = (Inr results, w'))
 \<and> (keywords \<noteq> [] \<longrightarrow>
      (\<forall>e. http_get env (length (trace w)) ARXIV_API_URL (arxiv_params keywords n) = Inl e \<longrightarrow>
           search_arxiv env keywords n w
             = (Inr [], w\<lparr>trace := trace w @ [arxiv_request keywords n,
                   Log ERROR (ustr ''arXiv search failed: '' @ str_exn e)]\<rparr>))
    \<and> (\<forall>response e.
           http_get env (length (trace w)) ARXIV_API_URL (arxiv_params keywords n) = Inr response
         \<and> raise_for_status env response = Some e \<longrightarrow>
           search_arxiv env keywords n w
             = (Inr [], w\<lparr>trace := trace w @ [arxiv_request keywords n,
                   Log ERROR (ustr ''arXiv search failed: '' @ str_exn e)]\<rparr>))
    \<and> (\<forall>response msg.
           http_get env (length (trace w)) ARXIV_API_URL (arxiv_params keywords n) = Inr response
         \<and> raise_for_status env response = None
         \<and> xml_fromstring env (hr_text response) = Inl msg \<longrightarrow>
           search_arxiv env keywords n w
             = (Inr [], w\<lparr>trace := trace w @ [arxiv_request keywords n,
                   Log ERROR (ustr ''Failed to parse arXiv XML: '' @ msg),
                   Log INFO (ustr ''arXiv search returned '' @ str_nat 0
                               @ ustr '' results for: ''
                               @ str_value env (JList (map JStr keywords)))]\<rparr>))
    \<and> (\<forall>e. http_get env (length (trace w))
              (huggingface_model_url env (py_join (ustr '' '') keywords) n) [] = Inl e \<longrightarrow>
           search_huggingface env keywords n w
             = (Inr [], w\<lparr>trace := trace w @ [huggingface_request env keywords n,
                   Log ERROR (ustr ''HuggingFace search failed: '' @ str_exn e)]\<rparr>))
    \<and> (\<forall>response e.
           http_get env (length (trace w))
              (huggingface_model_url env (py_join (ustr '' '') keywords) n) [] = Inr response
         \<and> raise_for_status env response = Some e \<longrightarrow>
           search_huggingface env keywords n w
             = (Inr [], w\<lparr>trace := trace w @ [huggingface_request env keywords n,
                   Log ERROR (ustr ''HuggingFace search failed: '' @ str_exn e)]\<rparr>))
    \<and> (\<forall>response msg.
           http_get env (length (trace w))
              (huggingface_model_url env (py_join (ustr '' '') keywords) n) [] = Inr response
         \<and> raise_for_status env response = None
         \<and> json_loads env (hr_text response) = Inl msg \<longrightarrow>
           search_huggingface env keywords n w
             = (Inr [], w\<lparr>trace := trace w @ [huggingface_request env keywords n,
                   Log ERROR (ustr ''HuggingFace search failed: '' @ msg)]\<rparr>)))"
proof (intro conjI impI allI, goal_cases)
  case 1
  show ?case by (rule search_arxiv_returns)
next
  case 2
  show ?case by (rule search_huggingface_returns)
next
  case (3 e)
  then show ?case by (rule arxiv_transport_failure)
next
  case (4 response e)
  from 4(2) show ?case by (elim conjE) (rule arxiv_status_failure[OF 4(1)])
next
  case (5 response msg)
  from 5(2) show ?case by (elim conjE) (rule arxiv_parse_failure[OF 5(1)])
next
  case (6 e)
  then show ?case by (rule huggingface_transport_failure)
next
  case (7 response e)
  from 7(2) show ?case by (elim conjE) (rule huggingface_status_failure[OF 7(1)])
next
  case (8 response msg)
  from 8(2) show ?case by (elim conjE) (rule huggingface_parse_failure[OF 8(1)])
qed

text \<open>A refused connection, a status 500 and a body that is neither XML nor JSON.\<close>

lemma external_search_failures_demo:
  "search_arxiv demo_env [ustr ''rag''] 3 demo_world
     = (Inr [], demo_world\<lparr>trace := [arxiv_request [ustr ''rag''] 3,
                                     Log ERROR (ustr ''arXiv search failed: refused'')]\<rparr>)
 \<and> search_huggingface demo_env [ustr ''rag''] 3 demo_world
     = (Inr [], demo_world\<lparr>trace := [huggingface_request demo_env [ustr ''rag''] 3,
                                     Log ERROR (ustr ''HuggingFace search failed: refused'')]\<rparr>)
 \<and> search_arxiv demo_env_http_500 [ustr ''rag''] 3 demo_world
     = (Inr [], demo_world\<lparr>trace := [arxiv_request [ustr ''rag''] 3,
                                     Log ERROR (ustr ''arXiv search failed: Server error'')]\<rparr>)
 \<and> fst (search_arxiv demo_env_unparseable [ustr ''rag''] 3 demo_world) = Inr []
 \<and> Log ERROR (ustr ''Failed to parse arXiv XML: syntax error'')
      \<in> set (trace (snd (search_arxiv demo_env_unparseable [ustr ''rag''] 3 demo_world)))
 \<and> search_huggingface demo_env_unparseable [ustr ''rag''] 3 demo_world
     = (Inr [], demo_world\<lparr>trace := [huggingface_request demo_env_unparseable [ustr ''rag''] 3,
                                     Log ERROR (ustr ''HuggingFace search failed: bad'')]\<rparr>)"
proof -
  let ?kw = "[ustr ''rag'']"
  have kw: "?kw \<noteq> []" by simp
  have t0: "trace demo_world = []" by (simp add: demo_world_def)
  have a1: "http_get demo_env (length (trace demo_world)) ARXIV_API_URL (arxiv_params ?kw 3)
              = Inl (Exn (LibraryError (ustr ''httpx.ConnectError'')) (ustr ''refused''))"
    and a2: "http_get demo_env (length (trace demo_world))
              (huggingface_model_url demo_env (py_join (ustr '' '') ?kw) 3) []
              = Inl (Exn (LibraryError (ustr ''httpx.ConnectError'')) (ustr ''refused''))"
    by (simp_all add: demo_env_def)
  have b1: "http_get demo_env_http_500 (length (trace demo_world)) ARXIV_API_URL (arxiv_params ?kw 3)
              = Inr \<lparr>hr_status_code = 500, hr_text = []\<rparr>"
    and b2: "raise_for_status demo_env_http_500 \<lparr>hr_status_code = 500, hr_text = []\<rparr>
              = Some (Exn (LibraryError (ustr ''httpx.HTTPStatusError'')) (ustr ''Server error''))"
    by (simp_all add: demo_env_http_500_def)
  have c1: "http_get demo_env_unparseable (length (trace demo_world)) ARXIV_API_URL (arxiv_params ?kw 3)
              = Inr \<lparr>hr_status_code = 200, hr_text = ustr ''<html>''\<rparr>"
    and c2: "http_get demo_env_unparseable (length (trace demo_world))
              (huggingface_model_url demo_env_unparseable (py_join (ustr '' '') ?kw) 3) []
              = Inr \<lparr>hr_status_code = 200, hr_text = ustr ''<html>''\<rparr>"
    and c3: "raise_for_status demo_env_unparseable \<lparr>hr_status_code = 200, hr_text = ustr ''<html>''\<rparr> = None"
    and c4: "xml_fromstring demo_env_unparseable (hr_text \<lparr>hr_status_code = 200, hr_text = ustr ''<html>''\<rparr>)
              = Inl (ustr ''syntax error'')"
    and c5: "json_loads demo_env_unparseable (hr_text \<lparr>hr_status_code = 200, hr_text = ustr ''<html>''\<rparr>)
              = Inl (ustr ''bad'')"
    by (simp_all add: demo_env_unparseable_def demo_env_def ustr_def)
  note A = external_search_swallows_failures[of demo_env ?kw 3 demo_world]
  note B = external_search_swallows_failures[of demo_env_http_500 ?kw 3 demo_world]
  note C = external_search_swallows_failures[of demo_env_unparseable ?kw 3 demo_world]
  from A kw a1 have r1: "search_arxiv demo_env ?kw 3 demo_world
     = (Inr [], demo_world\<lparr>trace := trace demo_world @ [arxiv_request ?kw 3,
          Log ERROR (ustr ''arXiv search failed: ''
             @ str_exn (Exn (LibraryError (ustr ''httpx.ConnectError'')) (ustr ''refused'')))]\<rparr>)"
    by blast
  from A kw a2 have r2: "search_huggingface demo_env ?kw 3 demo_world
     = (Inr [], demo_world\<lparr>trace := trace demo_world @ [huggingface_request demo_env ?kw 3,
          Log ERROR (ustr ''HuggingFace search failed: ''
             @ str_exn (Exn (LibraryError (ustr ''httpx.ConnectError'')) (ustr ''refused'')))]\<rparr>)"
    by blast
  from B kw b1 b2 have r3: "search_arxiv demo_env_http_500 ?kw 3 demo_world
     = (Inr [], demo_world\<lparr>trace := trace demo_world @ [arxiv_request ?kw 3,
          Log ERROR (ustr ''arXiv search failed: ''
             @ str_exn (Exn (LibraryError (ustr ''httpx.HTTPStatusError'')) (ustr ''Server error'')))]\<rparr>)"
    by blast
  from C kw c1 c3 c4 have r4: "search_arxiv demo_env_unparseable ?kw 3 demo_world
     = (Inr [], demo_world\<lparr>trace := trace demo_world @ [arxiv_request ?kw 3,
                   Log ERROR (ustr ''Failed to parse arXiv XML: '' @ ustr ''syntax error''),
                   Log INFO (ustr ''arXiv search returned '' @ str_nat 0
                               @ ustr '' results for: ''
                               @ str_value demo_env_unparseable (JList (map JStr ?kw)))]\<rparr>)"
    by blast
  from C kw c2 c3 c5 have r5: "search_huggingface demo_env_unparseable ?kw 3 demo_world
     = (Inr [], demo_world\<lparr>trace := trace demo_world @ [huggingface_request demo_env_unparseable ?kw 3,
          Log ERROR (ustr ''HuggingFace search failed: '' @ ustr ''bad'')]\<rparr>)"
    by blast
  from r1 r2 r3 r4 r5 t0 show ?thesis by (simp add: ustr_def)
qed

text \<open>
  Claim C7 at a response whose second element is malformed. The claim has every
  malformed response give the empty list. The second provider answers with a JSON list
  of a model and the number 5: the body parses, the first element becomes a result, the
  second raises in the loop, and \<open>search_huggingface\<close> logs the failure and returns the
  result built before it. The list \<open>results\<close> is created before the \<open>try\<close> and returned
  after the handler, whereas the handler of \<open>search_arxiv\<close> returns the empty list.
\<close>

theorem C7_huggingface_partial_results:
  "search_huggingface demo_env_second_element [ustr ''rag''] 3 demo_world
     = (Inr [demo_model],
        demo_world\<lparr>trace :=
          [huggingface_request demo_env_second_element [ustr ''rag''] 3,
           Log ERROR (ustr ''HuggingFace search failed: int object has no attribute get'')]\<rparr>)
 \<and> json_loads demo_env_second_element demo_body
     = Inr (JList [JObj [(ustr ''modelId'', JStr (ustr ''m'')),
                         (ustr ''author'', JStr (ustr ''a''))], JInt 5])
 \<and> [demo_model] \<noteq> []"
  by (simp add: search_huggingface_def hf_try_block_def huggingface_request_def
        huggingface_model_url_def response_json_def sliced_models_def check_status_def
        hf_model_result_def json_get_def validate_optional_str_def py_str_def py_slice_to_def
        py_error_def io_try_def io_bind_def io_lift_def io_return_def external_def logger_def
        Let_def demo_env_second_element_def demo_env_def demo_world_def demo_model_def
        demo_body_def ustr_def)

text \<open>
  Claim C8. With an empty keyword list the knowledge-tier search and both external
  searches return the empty list and leave the world as it is: no event at all, so no
  embedding call, no statement and no HTTP request.
\<close>

theorem C8_empty_keywords_short_circuit:
  "vector_search env [] limit min_similarity w = (Inr [], w)
 \<and> search_arxiv env [] max_results w = (Inr [], w)
 \<and> search_huggingface env [] max_results w = (Inr [], w)"
  by (simp add: vector_search_def search_arxiv_def search_huggingface_def io_return_def)

text \<open>The three searches on the concrete store, whose trace stays empty.\<close>

theorem C8_witness:
  "vector_search demo_env [] (Some 5) (1/2) demo_world = (Inr [], demo_world)
 \<and> search_arxiv demo_env [] 3 demo_world = (Inr [], demo_world)
 \<and> search_huggingface demo_env [] 3 demo_world = (Inr [], demo_world)
 \<and> trace (snd (search_arxiv demo_env [] 3 demo_world)) = []"
  using C8_empty_keywords_short_circuit[of demo_env "Some 5" "1/2" demo_world 3]
  by (simp add: demo_world_def)

lemma response_context_parts_Nil:
  "response_context_parts ki mr = [] \<longleftrightarrow> list_or_empty ki = [] \<and> list_or_empty mr = []"
proof -
  have "length (response_context_parts ki mr)
          = length (list_or_empty ki) + length (list_or_empty mr)"
    by (simp add: response_context_parts_def Let_def)
  then have "length (response_context_parts ki mr) = 0
               \<longleftrightarrow> length (list_or_empty ki) = 0 \<and> length (list_or_empty mr) = 0"
    by simp
  then show ?thesis by simp
qed

lemma generate_response_call_fails:
  assumes ne: "list_or_empty ki \<noteq> [] \<or> list_or_empty mr \<noteq> []"
    and fail: "chat_create env (length (trace w))
                 (response_request env query (response_context_parts ki mr)) = Inl e"
  shows "generate_response env query ki mr w
           = (Inr (error_response e, response_sources ki mr),
              w\<lparr>trace := trace w @
                 [ChatCreate (response_request env query (response_context_parts ki mr)),
                  Log ERROR (ustr ''Response generation failed: '' @ str_exn e)]\<rparr>)"
proof -
  from ne have "response_context_parts ki mr \<noteq> []" by (simp add: response_context_parts_Nil)
  with fail show ?thesis
    by (simp add: generate_response_def Let_def io_try_def io_bind_def external_def logger_def
          io_return_def error_response_def)
qed

lemma generate_response_reply_unusable:
  assumes ne: "list_or_empty ki \<noteq> [] \<or> list_or_empty mr \<noteq> []"
    and reply: "chat_create env (length (trace w))
                 (response_request env query (response_context_parts ki mr)) = Inr choices"
    and bad: "first_choice_content env choices = Inl e"
  shows "generate_response env query ki mr w
           = (Inr (error_response e, response_sources ki mr),
              w\<lparr>trace := trace w @
                 [ChatCreate (response_request env query (response_context_parts ki mr)),
                  Log ERROR (ustr ''Response generation failed: '' @ str_exn e)]\<rparr>)"
proof -
  from ne have "response_context_parts ki mr \<noteq> []" by (simp add: response_context_parts_Nil)
  with reply bad show ?thesis
    by (simp add: generate_response_def Let_def io_try_def io_bind_def external_def logger_def
          io_return_def io_lift_def error_response_def)
qed

text \<open>
  Claim C9. When at least one of the two document sets is non-empty and the
  text-generation call raises (or its reply has no usable first choice), the responder
  returns, instead of raising, the message that embeds the error text together with the
  whole citation list built from the documents: one citation per document, in order, the
  knowledge items first. The citation of a knowledge item has the item's source type,
  title, URL, author and final score; the citation of an external result has the
  result's source type, title, URL and author, and the score 0.
\<close>

theorem C9_citations_survive_synthesis_failure:
  assumes "list_or_empty knowledge_items \<noteq> [] \<or> list_or_empty mcp_results \<noteq> []"
  shows "(\<forall>e. chat_create env (length (trace w))
               (response_request env query (response_context_parts knowledge_items mcp_results))
             = Inl e \<longrightarrow>
            generate_response env query knowledge_items mcp_results w
              = (Inr (error_response e, response_sources knowledge_items mcp_results),
                 w\<lparr>trace := trace w @
                    [ChatCreate (response_request env query
                                   (response_context_parts knowledge_items mcp_results)),
                     Log ERROR (ustr ''Response generation failed: '' @ str_exn e)]\<rparr>))
       \<and> (\<forall>choices e. chat_create env (length (trace w))
               (response_request env query (response_context_parts knowledge_items mcp_results))
             = Inr choices \<and> first_choice_content env choices = Inl e \<longrightarrow>
            generate_response env query knowledge_items mcp_results w
              = (Inr (error_response e, response_sources knowledge_items mcp_results),
                 w\<lparr>trace := trace w @
                    [ChatCreate (response_request env query
                                   (response_context_parts knowledge_items mcp_results)),
                     Log ERROR (ustr ''Response generation failed: '' @ str_exn e)]\<rparr>))
       \<and> length (response_sources knowledge_items mcp_results)
            = length (list_or_empty knowledge_items) + length (list_or_empty mcp_results)
       \<and> (\<forall>i. i < length (list_or_empty knowledge_items) \<longrightarrow>
            response_sources knowledge_items mcp_results ! i
              = \<lparr>si_source_type = ki_source_type (list_or_empty knowledge_items ! i),
                 si_title = ki_source_title (list_or_empty knowledge_items ! i),
                 si_url = ki_source_url (list_or_empty knowledge_items ! i),
                 si_author = ki_source_author (list_or_empty knowledge_items ! i),
                 si_relevance_score = ki_final_score (list_or_empty knowledge_items ! i)\<rparr>)
       \<and> (\<forall>j. j < length (list_or_empty mcp_results) \<longrightarrow>
            response_sources knowledge_items mcp_results
                ! (length (list_or_empty knowledge_items) + j)
              = \<lparr>si_source_type = mr_source_type (list_or_empty mcp_results ! j),
                 si_title = mr_source_title (list_or_empty mcp_results ! j),
                 si_url = mr_source_url (list_or_empty mcp_results ! j),
                 si_author = mr_source_author (list_or_empty mcp_results ! j),
                 si_relevance_score = 0\<rparr>)
       \<and> response_sources knowledge_items mcp_results \<noteq> []
       \<and> (\<forall>e. error_response e
              = ustr ''I encountered an error generating a response: '' @ str_exn e)"
proof (intro conjI impI allI, goal_cases)
  case (1 e)
  then show ?case by (rule generate_response_call_fails[OF assms])
next
  case (2 choices e)
  then show ?case by (elim conjE) (rule generate_response_reply_unusable[OF assms])
next
  case 3
  show ?case by (simp add: response_sources_def)
next
  case (4 i)
  then show ?case by (simp add: response_sources_def nth_append knowledge_source_info_def)
next
  case (5 j)
  then show ?case by (simp add: response_sources_def nth_append mcp_source_info_def)
next
  case 6
  from assms show ?case by (auto simp: response_sources_def)
next
  case (7 e)
  show ?case by (simp add: error_response_def)
qed

text \<open>One knowledge item, one external result and a text generator that times out: the
  answer carries the error text and the two citations, field by field.\<close>

theorem C9_witness:
  "list_or_empty (Some [demo_insight]) \<noteq> []
 \<and> fst (generate_response demo_env_llm_down (ustr ''what is rag'') (Some [demo_insight])
          (Some [demo_model]) demo_world)
     = Inr (ustr ''I encountered an error generating a response: Request timed out.'',
            [\<lparr>si_source_type = EXPERT_INSIGHT, si_title = Some (ustr ''Notes''),
              si_url = Some (ustr ''https://example.org/notes''),
              si_author = Some (ustr ''b''),
              si_relevance_score = 7656119366529843 / 9007199254740992\<rparr>,
             \<lparr>si_source_type = HUGGINGFACE, si_title = Some (ustr ''m''),
              si_url = Some (ustr ''https://huggingface.co/m''),
              si_author = Some (ustr ''a''), si_relevance_score = 0\<rparr>])
 \<and> Log ERROR (ustr ''Response generation failed: Request timed out.'')
      \<in> set (trace (snd (generate_response demo_env_llm_down (ustr ''what is rag'')
                            (Some [demo_insight]) (Some [demo_model]) demo_world)))"
proof -
  let ?ki = "Some [demo_insight]"
  let ?mr = "Some [demo_model]"
  let ?e = "Exn (LibraryError (ustr ''openai.APITimeoutError'')) (ustr ''Request timed out.'')"
  have ne: "list_or_empty ?ki \<noteq> [] \<or> list_or_empty ?mr \<noteq> []"
    by (simp add: list_or_empty_def)
  have fail: "chat_create demo_env_llm_down (length (trace demo_world))
      (response_request demo_env_llm_down (ustr ''what is rag'') (response_context_parts ?ki ?mr))
      = Inl ?e"
    by (simp add: demo_env_llm_down_def)
  note c = C9_citations_survive_synthesis_failure[OF ne, of demo_env_llm_down demo_world "ustr ''what is rag''"]
  from c fail have run: "generate_response demo_env_llm_down (ustr ''what is rag'') ?ki ?mr demo_world
              = (Inr (error_response ?e, response_sources ?ki ?mr),
                 demo_world\<lparr>trace := trace demo_world @
                    [ChatCreate (response_request demo_env_llm_down (ustr ''what is rag'')
                                   (response_context_parts ?ki ?mr)),
                     Log ERROR (ustr ''Response generation failed: '' @ str_exn ?e)]\<rparr>)"
    by blast
  from c have er: "error_response ?e
      = ustr ''I encountered an error generating a response: '' @ str_exn ?e" by blast
  from c have len: "length (response_sources ?ki ?mr)
      = length (list_or_empty ?ki) + length (list_or_empty ?mr)" by blast
  from c have "0 < length (list_or_empty ?ki) \<longrightarrow>
            response_sources ?ki ?mr ! 0
              = \<lparr>si_source_type = ki_source_type (list_or_empty ?ki ! 0),
                 si_title = ki_source_title (list_or_empty ?ki ! 0),
                 si_url = ki_source_url (list_or_empty ?ki ! 0),
                 si_author = ki_source_author (list_or_empty ?ki ! 0),
                 si_relevance_score = ki_final_score (list_or_empty ?ki ! 0)\<rparr>" by blast
  then have k: "response_sources ?ki ?mr ! 0
      = \<lparr>si_source_type = EXPERT_INSIGHT, si_title = Some (ustr ''Notes''),
              si_url = Some (ustr ''https://example.org/notes''),
              si_author = Some (ustr ''b''),
              si_relevance_score = 7656119366529843 / 9007199254740992\<rparr>"
    by (simp add: list_or_empty_def demo_insight_def)
  from c have "0 < length (list_or_empty ?mr) \<longrightarrow>
            response_sources ?ki ?mr ! (length (list_or_empty ?ki) + 0)
              = \<lparr>si_source_type = mr_source_type (list_or_empty ?mr ! 0),
                 si_title = mr_source_title (list_or_empty ?mr ! 0),
                 si_url = mr_source_url (list_or_empty ?mr ! 0),
                 si_author = mr_source_author (list_or_empty ?mr ! 0),
                 si_relevance_score = 0\<rparr>" by blast
  then have m: "response_sources ?ki ?mr ! 1
      = \<lparr>si_source_type = HUGGINGFACE, si_title = Some (ustr ''m''),
              si_url = Some (ustr ''https://huggingface.co/m''),
              si_author = Some (ustr ''a''), si_relevance_score = 0\<rparr>"
    by (simp add: list_or_empty_def demo_model_def)
  from len have l2: "length (response_sources ?ki ?mr) = 2" by (simp add: list_or_empty_def)
  then obtain a b where ab: "response_sources ?ki ?mr = [a, b]"
    by (cases "response_sources ?ki ?mr" rule: list.exhaust[case_product list.exhaust])
       (auto simp: length_Suc_conv)
  with k m have src: "response_sources ?ki ?mr
      = [\<lparr>si_source_type = EXPERT_INSIGHT, si_title = Some (ustr ''Notes''),
              si_url = Some (ustr ''https://example.org/notes''),
              si_author = Some (ustr ''b''),
              si_relevance_score = 7656119366529843 / 9007199254740992\<rparr>,
             \<lparr>si_source_type = HUGGINGFACE, si_title = Some (ustr ''m''),
              si_url = Some (ustr ''https://huggingface.co/m''),
              si_author = Some (ustr ''a''), si_relevance_score = 0\<rparr>]"
    by simp
  from run er src ne show ?thesis by (simp add: list_or_empty_def ustr_def)
qed

text \<open>
  Claim C10. The responder always returns, and its citation list is the citations of the
  knowledge items followed by those of the external results; a citation of a knowledge
  item carries the item's final score as relevance score, and a citation of an external
  result carries exactly 0, never a positive score.
\<close>

theorem C10_citation_relevance_scores:
  "(\<exists>text w'. generate_response env query knowledge_items mcp_results w
                 = (Inr (text, response_sources knowledge_items mcp_results), w'))
 \<and> response_sources knowledge_items mcp_results
      = map knowledge_source_info (list_or_empty knowledge_items)
        @ map mcp_source_info (list_or_empty mcp_results)
 \<and> (\<forall>i. i < length (list_or_empty knowledge_items) \<longrightarrow>
        si_relevance_score (response_sources knowledge_items mcp_results ! i)
          = ki_final_score (list_or_empty knowledge_items ! i))
 \<and> (\<forall>j. j < length (list_or_empty mcp_results) \<longrightarrow>
        si_relevance_score (response_sources knowledge_items mcp_results
                              ! (length (list_or_empty knowledge_items) + j)) = 0)
 \<and> (\<forall>item. si_relevance_score (knowledge_source_info item) = ki_final_score item)
 \<and> (\<forall>result. si_relevance_score (mcp_source_info result) = 0
             \<and> \<not> 0 < si_relevance_score (mcp_source_info result))"
proof (intro conjI impI allI, goal_cases)
  case 1
  show ?case
  proof (cases "response_context_parts knowledge_items mcp_results = []")
    case True
    then have "response_sources knowledge_items mcp_results = []"
      by (simp add: response_context_parts_Nil response_sources_def)
    with True show ?thesis by (simp add: generate_response_def Let_def)
  next
    case False
    then show ?thesis
      by (auto simp: generate_response_def Let_def io_try_def io_bind_def external_def logger_def
            io_return_def io_lift_def split: sum.splits prod.splits)
  qed
next
  case 2
  show ?case by (simp add: response_sources_def)
next
  case (3 i)
  then show ?case by (simp add: response_sources_def nth_append knowledge_source_info_def)
next
  case (4 j)
  then show ?case by (simp add: response_sources_def nth_append mcp_source_info_def)
next
  case (5 item)
  show ?case by (simp add: knowledge_source_info_def)
next
  case (6 result)
  show ?case by (simp add: mcp_source_info_def)
next
  case (7 result)
  show ?case by (simp add: mcp_source_info_def)
qed

text \<open>One knowledge item with final score 0.895 and one external result.\<close>

theorem C10_witness:
  "\<exists>text w'.
      generate_response demo_env (ustr ''what is rag'') (Some [demo_item]) (Some [demo_result])
          demo_world
        = (Inr (text, [knowledge_source_info demo_item, mcp_source_info demo_result]), w')
    \<and> si_relevance_score (knowledge_source_info demo_item) = ki_final_score demo_item
    \<and> ki_final_score demo_item = 0.895
    \<and> si_relevance_score (mcp_source_info demo_result) = 0"
proof -
  let ?ki = "Some [demo_item]" and ?mr = "Some [demo_result]"
  note c = C10_citation_relevance_scores[of demo_env "ustr ''what is rag''" ?ki ?mr demo_world]
  from c obtain answer w' where run:
    "generate_response demo_env (ustr ''what is rag'') ?ki ?mr demo_world
       = (Inr (answer, response_sources ?ki ?mr), w')" by blast
  from c have "response_sources ?ki ?mr
      = map knowledge_source_info (list_or_empty ?ki) @ map mcp_source_info (list_or_empty ?mr)"
    by blast
  then have src: "response_sources ?ki ?mr
      = [knowledge_source_info demo_item, mcp_source_info demo_result]"
    by (simp add: list_or_empty_def)
  from c have k: "si_relevance_score (knowledge_source_info demo_item) = ki_final_score demo_item"
    by blast
  from c have m: "si_relevance_score (mcp_source_info demo_result) = 0" by blast
  have f: "ki_final_score demo_item = 0.895" by (simp add: demo_item_def)
  from run src k m f show ?thesis by auto
qed

lemma hd_sort_key_max:
  fixes f :: "'a \<Rightarrow> real"
  assumes "sort_key (\<lambda>x. - f x) xs = y # ys"
  shows "y \<in> set xs \<and> (\<forall>x \<in> set xs. f x \<le> f y)"
proof -
  have s: "sorted (map (\<lambda>x. - f x) (y # ys))"
    using sorted_sort_key[of "\<lambda>x. - f x" xs] assms by simp
  have m: "set (y # ys) = set xs" using set_sort[of "\<lambda>x. - f x" xs] assms by simp
  from m have "y \<in> set xs" by auto
  moreover have "\<forall>x \<in> set xs. f x \<le> f y"
  proof
    fix x assume "x \<in> set xs"
    with m have "x = y \<or> x \<in> set ys" by auto
    with s show "f x \<le> f y" by auto
  qed
  ultimately show ?thesis by blast
qed

lemma cache_nearest_Some:
  assumes "cache_nearest env emb thr tbl = Some r"
  shows "thr \<le> rec_similarity r
       \<and> (\<exists>row \<in> set tbl. r = cache_record_of env emb row)
       \<and> (\<forall>row \<in> set tbl. fsub 1 (cosine_distance env (cr_query_embedding row) emb) \<le> rec_similarity r
                            \<or> fsub 1 (cosine_distance env (cr_query_embedding row) emb) < thr)"
proof -
  let ?xs = "filter (\<lambda>r. thr \<le> rec_similarity r) (map (cache_record_of env emb) tbl)"
  from assms obtain ys where "sort_key (\<lambda>r. - rec_similarity r) ?xs = r # ys"
    by (auto simp: cache_nearest_def split: list.splits)
  from hd_sort_key_max[OF this] have a: "r \<in> set ?xs" and b: "\<forall>x \<in> set ?xs. rec_similarity x \<le> rec_similarity r"
    by auto
  from a have 1: "thr \<le> rec_similarity r" and 2: "\<exists>row \<in> set tbl. r = cache_record_of env emb row"
    by auto
  have 3: "\<forall>row \<in> set tbl. fsub 1 (cosine_distance env (cr_query_embedding row) emb) \<le> rec_similarity r
                            \<or> fsub 1 (cosine_distance env (cr_query_embedding row) emb) < thr"
  proof
    fix row assume r: "row \<in> set tbl"
    show "fsub 1 (cosine_distance env (cr_query_embedding row) emb) \<le> rec_similarity r
                            \<or> fsub 1 (cosine_distance env (cr_query_embedding row) emb) < thr"
    proof (cases "thr \<le> fsub 1 (cosine_distance env (cr_query_embedding row) emb)")
      case True
      with r have "cache_record_of env emb row \<in> set ?xs" by (simp add: cache_record_of_def)
      with b have "rec_similarity (cache_record_of env emb row) \<le> rec_similarity r" by blast
      then show ?thesis by (simp add: cache_record_of_def)
    next
      case False
      then show ?thesis by simp
    qed
  qed
  from 1 2 3 show ?thesis by blast
qed

lemma cache_nearest_None:
  "cache_nearest env emb thr tbl = None
     \<longleftrightarrow> (\<forall>row \<in> set tbl. fsub 1 (cosine_distance env (cr_query_embedding row) emb) < thr)"
proof -
  let ?xs = "filter (\<lambda>r. thr \<le> rec_similarity r) (map (cache_record_of env emb) tbl)"
  have "cache_nearest env emb thr tbl = None \<longleftrightarrow> sort_key (\<lambda>r. - rec_similarity r) ?xs = []"
    by (simp add: cache_nearest_def split: list.splits)
  also have "\<dots> \<longleftrightarrow> ?xs = []"
    by (metis length_0_conv length_sort)
  also have "\<dots> \<longleftrightarrow> (\<forall>row \<in> set tbl. fsub 1 (cosine_distance env (cr_query_embedding row) emb) < thr)"
    by (auto simp: filter_empty_conv cache_record_of_def not_le)
  finally show ?thesis .
qed

lemma increment_hit_count_once:
  assumes "distinct (map cr_id tbl)" and "row \<in> set tbl"
  shows "\<exists>before after. tbl = before @ row # after
       \<and> increment_hit_count (cr_id row) tbl
           = before @ row\<lparr>cr_hit_count := cr_hit_count row + 1\<rparr> # after"
proof -
  from assms(2) obtain before after where t: "tbl = before @ row # after"
    by (auto simp: in_set_conv_decomp)
  with assms(1) have "cr_id row \<notin> cr_id ` set before" "cr_id row \<notin> cr_id ` set after"
    by auto
  then have "\<forall>r \<in> set before. cr_id r \<noteq> cr_id row" "\<forall>r \<in> set after. cr_id r \<noteq> cr_id row"
    by (metis imageI)+
  then have "map (\<lambda>r. if cr_id r = cr_id row then r\<lparr>cr_hit_count := cr_hit_count r + 1\<rparr> else r) before = before"
    "map (\<lambda>r. if cr_id r = cr_id row then r\<lparr>cr_hit_count := cr_hit_count r + 1\<rparr> else r) after = after"
    by (simp_all add: map_idI)
  with t have "increment_hit_count (cr_id row) tbl
           = before @ row\<lparr>cr_hit_count := cr_hit_count row + 1\<rparr> # after"
    by (simp add: increment_hit_count_def)
  with t show ?thesis by blast
qed

lemma io_bind_InrE:
  assumes "io_bind m f w = (Inr y, w')"
  obtains x w1 where "m w = (Inr x, w1)" "f x w1 = (Inr y, w')"
  using assms by (auto simp: io_bind_Inr)

lemma cache_fetchrow_frame:
  assumes "cache_fetchrow env emb thr w = (r, w')"
  shows "w' = w\<lparr>trace := trace w @ [DbExecute (CacheSelect emb thr)]\<rparr>"
  using assms
  by (auto simp: cache_fetchrow_def db_execute_def external_def io_bind_def split: option.splits)

lemma cache_fetchrow_Inr:
  assumes "cache_fetchrow env emb thr w = (Inr r, w')"
  shows "r = cache_nearest env emb thr (semantic_cache w)"
  using assms
  by (auto simp: cache_fetchrow_def db_execute_def external_def io_bind_def split: option.splits)

lemma cache_update_hit_count_Inr:
  assumes "cache_update_hit_count env i w = (Inr u, w')"
  shows "w' = w\<lparr>trace := trace w @ [DbExecute (CacheUpdateHitCount i)],
                semantic_cache := increment_hit_count i (semantic_cache w)\<rparr>"
  using assms
  by (auto simp: cache_update_hit_count_def db_execute_def external_def io_bind_def
           split: option.splits)

lemma get_embedding_Inr:
  assumes "get_embedding env t w = (Inr v, w')"
  shows "\<exists>rest. embeddings_create env (length (trace w)) (embedding_model (settings env)) t
                  = Inr (v # rest)"
  using assms
  by (auto simp: get_embedding_def io_bind_def external_def logger_def io_return_def
        io_raise_def split: sum.splits list.splits)

lemma cache_lookup_Inr:
  assumes "cache_lookup env query w = (Inr row, w')"
  shows "\<exists>v w1 n1.
           get_embedding env query w = (Inr v, w1)
         \<and> row = cache_nearest env (embedding_to_pgvector env v)
                   (cache_similarity_threshold (settings env)) (semantic_cache w)
         \<and> w' = w\<lparr>trace := trace w @ n1 @
                     [DbAcquire,
                      DbExecute (CacheSelect (embedding_to_pgvector env v)
                                   (cache_similarity_threshold (settings env)))]\<rparr>
         \<and> db_statements n1 = []"
proof -
  let ?thr = "cache_similarity_threshold (settings env)"
  from assms[unfolded cache_lookup_def Let_def] obtain v w1 u w2 where
    e: "get_embedding env query w = (Inr v, w1)" and
    c: "get_connection env w1 = (Inr u, w2)" and
    f: "cache_fetchrow env (embedding_to_pgvector env v) ?thr w2 = (Inr row, w')"
    by (elim io_bind_InrE)
  let ?emb = "embedding_to_pgvector env v"
  from get_embedding_frame[OF e] obtain n1 where
    w1: "w1 = w\<lparr>trace := trace w @ n1\<rparr>" and n1: "db_statements n1 = []" by blast
  from get_connection_frame[OF c] have w2: "w2 = w1\<lparr>trace := trace w1 @ [DbAcquire]\<rparr>" .
  from cache_fetchrow_frame[OF f]
  have w3: "w' = w2\<lparr>trace := trace w2 @ [DbExecute (CacheSelect ?emb ?thr)]\<rparr>" .
  from cache_fetchrow_Inr[OF f] w1 w2
  have row: "row = cache_nearest env ?emb ?thr (semantic_cache w)" by simp
  have "w' = w\<lparr>trace := trace w @ n1 @ [DbAcquire, DbExecute (CacheSelect ?emb ?thr)]\<rparr>"
    using w3 w2 w1 by simp
  with e row n1 show ?thesis by blast
qed

lemma cache_hit_Inr:
  assumes "cache_hit env r w = (Inr entry, w')"
  shows "\<exists>sources msg.
           entry = \<lparr>ce_id = rec_id r, ce_query_text = rec_query_text r,
                     ce_response_text = rec_response_text r, ce_sources = sources,
                     ce_hit_count = rec_hit_count r + 1, ce_similarity = rec_similarity r,
                     ce_created_at = rec_created_at r\<rparr>
         \<and> w' = w\<lparr>trace := trace w @ [DbExecute (CacheUpdateHitCount (rec_id r)), Log INFO msg],
                    semantic_cache := increment_hit_count (rec_id r) (semantic_cache w)\<rparr>"
proof -
  from assms[unfolded cache_hit_def Let_def] obtain u w1 sources w2 u' w3 where
    a: "cache_update_hit_count env (rec_id r) w = (Inr u, w1)" and
    b: "io_lift (load_sources env (rec_sources r)) w1 = (Inr sources, w2)" and
    c: "logger INFO (ustr ''Cache hit: similarity='' @ format_4f env
            (ce_similarity \<lparr>ce_id = rec_id r, ce_query_text = rec_query_text r,
                     ce_response_text = rec_response_text r, ce_sources = sources,
                     ce_hit_count = rec_hit_count r + 1, ce_similarity = rec_similarity r,
                     ce_created_at = rec_created_at r\<rparr>)) w2 = (Inr u', w3)" and
    d: "io_return \<lparr>ce_id = rec_id r, ce_query_text = rec_query_text r,
                     ce_response_text = rec_response_text r, ce_sources = sources,
                     ce_hit_count = rec_hit_count r + 1, ce_similarity = rec_similarity r,
                     ce_created_at = rec_created_at r\<rparr> w3 = (Inr entry, w')"
    by (elim io_bind_InrE)
  from cache_update_hit_count_Inr[OF a]
  have w1: "w1 = w\<lparr>trace := trace w @ [DbExecute (CacheUpdateHitCount (rec_id r))],
                semantic_cache := increment_hit_count (rec_id r) (semantic_cache w)\<rparr>" .
  from b have w2: "w2 = w1" by simp
  from c obtain msg where w3: "w3 = w2\<lparr>trace := trace w2 @ [Log INFO msg]\<rparr>" by simp
  from d have en: "entry = \<lparr>ce_id = rec_id r, ce_query_text = rec_query_text r,
                     ce_response_text = rec_response_text r, ce_sources = sources,
                     ce_hit_count = rec_hit_count r + 1, ce_similarity = rec_similarity r,
                     ce_created_at = rec_created_at r\<rparr>" and w': "w' = w3" by simp_all
  have "w' = w\<lparr>trace := trace w @ [DbExecute (CacheUpdateHitCount (rec_id r)), Log INFO msg],
                    semantic_cache := increment_hit_count (rec_id r) (semantic_cache w)\<rparr>"
    using w' w3 w2 w1 by simp
  with en show ?thesis by blast
qed

lemma cache_search_hit:
  assumes "cache_search env query w = (Inr (Some entry), w')"
  shows "\<exists>v w1 r new.
           get_embedding env query w = (Inr v, w1)
         \<and> cache_nearest env (embedding_to_pgvector env v)
              (cache_similarity_threshold (settings env)) (semantic_cache w) = Some r
         \<and> ce_id entry = rec_id r \<and> ce_similarity entry = rec_similarity r
         \<and> ce_hit_count entry = rec_hit_count r + 1
         \<and> ce_query_text entry = rec_query_text r
         \<and> ce_response_text entry = rec_response_text r
         \<and> semantic_cache w' = increment_hit_count (rec_id r) (semantic_cache w)
         \<and> knowledge_base w' = knowledge_base w
         \<and> trace w' = trace w @ new
         \<and> db_statements new
             = [CacheSelect (embedding_to_pgvector env v) (cache_similarity_threshold (settings env)),
                CacheUpdateHitCount (rec_id r)]"
proof -
  let ?thr = "cache_similarity_threshold (settings env)"
  from assms[unfolded cache_search_def] obtain row w3 where
    l: "cache_lookup env query w = (Inr row, w3)" and
    o: "cache_outcome env row w3 = (Inr (Some entry), w')"
    by (elim io_bind_InrE)
  from cache_lookup_Inr[OF l] obtain v w1 n1 where
    e: "get_embedding env query w = (Inr v, w1)" and
    row: "row = cache_nearest env (embedding_to_pgvector env v) ?thr (semantic_cache w)" and
    w3: "w3 = w\<lparr>trace := trace w @ n1 @
                     [DbAcquire, DbExecute (CacheSelect (embedding_to_pgvector env v) ?thr)]\<rparr>" and
    n1: "db_statements n1 = []" by blast
  let ?emb = "embedding_to_pgvector env v"
  from o obtain r where r: "row = Some r"
    by (cases row) (auto simp: cache_outcome_def io_bind_Inr)
  with o have "io_bind (cache_hit env r) (\<lambda>entry. io_return (Some entry)) w3
                 = (Inr (Some entry), w')"
    by (simp add: cache_outcome_def)
  then have h: "cache_hit env r w3 = (Inr entry, w')" by (auto simp: io_bind_Inr)
  from cache_hit_Inr[OF h] obtain sources msg where
    en: "entry = \<lparr>ce_id = rec_id r, ce_query_text = rec_query_text r,
                     ce_response_text = rec_response_text r, ce_sources = sources,
                     ce_hit_count = rec_hit_count r + 1, ce_similarity = rec_similarity r,
                     ce_created_at = rec_created_at r\<rparr>" and
    w': "w' = w3\<lparr>trace := trace w3 @ [DbExecute (CacheUpdateHitCount (rec_id r)), Log INFO msg],
                    semantic_cache := increment_hit_count (rec_id r) (semantic_cache w3)\<rparr>"
    by blast
  let ?new = "n1 @ [DbAcquire, DbExecute (CacheSelect ?emb ?thr),
                    DbExecute (CacheUpdateHitCount (rec_id r)), Log INFO msg]"
  have t: "trace w' = trace w @ ?new" using w' w3 by simp
  have s: "db_statements ?new = [CacheSelect ?emb ?thr, CacheUpdateHitCount (rec_id r)]"
    using n1 by simp
  have c': "semantic_cache w' = increment_hit_count (rec_id r) (semantic_cache w)"
    using w' w3 by simp
  have k: "knowledge_base w' = knowledge_base w" using w' w3 by simp
  from row r have n: "cache_nearest env ?emb ?thr (semantic_cache w) = Some r" by simp
  from e n en c' k t s show ?thesis
    by (intro exI[of _ v] exI[of _ w1] exI[of _ r] exI[of _ ?new]) simp
qed

lemma cache_search_miss:
  assumes e: "get_embedding env query w = (Inr v, w1)"
    and f1: "db_fault env (length (trace w1)) = None"
    and f2: "db_fault env (Suc (length (trace w1))) = None"
    and none: "cache_nearest env (embedding_to_pgvector env v)
                 (cache_similarity_threshold (settings env)) (semantic_cache w) = None"
  shows "cache_search env query w
           = (Inr None,
              w1\<lparr>trace := trace w1 @
                   [DbAcquire,
                    DbExecute (CacheSelect (embedding_to_pgvector env v)
                                 (cache_similarity_threshold (settings env))),
                    Log DEBUG (ustr ''Cache miss'')]\<rparr>)"
proof -
  from get_embedding_frame[OF e] obtain n1 where
    w1: "w1 = w\<lparr>trace := trace w @ n1\<rparr>" by blast
  then have c: "semantic_cache w1 = semantic_cache w" by simp
  show ?thesis
    using e f1 f2 none c
    by (simp add: cache_search_def cache_lookup_def cache_outcome_def Let_def io_bind_def
          get_connection_def external_def cache_fetchrow_def db_execute_def logger_def
          io_return_def)
qed

text \<open>
  Claim C4, amended. With unique entry identifiers: when the cache search returns an
  entry, the similarity it reports is that of the stored entry to the embedding that the
  provider gave for the query, and is at least the configured threshold; the search has sent one lookup and then
  one update statement, the update adds one to the stored hit counter of that entry and
  changes no other entry, and the entry reports the counter it read plus one. The lookup
  and the update are two statements with no transaction around them: what is stated here
  of the stored counter holds when no other statement reaches the store between them.
  When the embedding call and the two database calls succeed and no stored entry reaches
  the threshold (so also on an empty store), the search returns \<open>None\<close> without raising
  and without changing the store. The update statement adds one to the stored counter,
  whatever its value.
\<close>

theorem C4_cache_hit_threshold_and_counter:
  assumes "distinct (map cr_id (semantic_cache w))"
  shows "(\<forall>entry w'. cache_search env query w = (Inr (Some entry), w') \<longrightarrow>
            cache_similarity_threshold (settings env) \<le> ce_similarity entry
          \<and> (\<exists>v rest w1 row before after new.
                 embeddings_create env (length (trace w)) (embedding_model (settings env)) query
                   = Inr (v # rest)
               \<and> get_embedding env query w = (Inr v, w1)
               \<and> semantic_cache w = before @ row # after
               \<and> semantic_cache w'
                   = before @ row\<lparr>cr_hit_count := cr_hit_count row + 1\<rparr> # after
               \<and> ce_id entry = cr_id row
               \<and> ce_query_text entry = cr_query_text row
               \<and> ce_response_text entry = cr_response_text row
               \<and> ce_hit_count entry = cr_hit_count row + 1
               \<and> ce_similarity entry
                   = fsub 1 (cosine_distance env (cr_query_embedding row)
                               (embedding_to_pgvector env v))
               \<and> knowledge_base w' = knowledge_base w
               \<and> trace w' = trace w @ new
               \<and> db_statements new
                   = [CacheSelect (embedding_to_pgvector env v)
                        (cache_similarity_threshold (settings env)),
                      CacheUpdateHitCount (cr_id row)]))
       \<and> (\<forall>v w1. get_embedding env query w = (Inr v, w1)
              \<and> db_fault env (length (trace w1)) = None
              \<and> db_fault env (Suc (length (trace w1))) = None
              \<and> (\<forall>row \<in> set (semantic_cache w).
                     fsub 1 (cosine_distance env (cr_query_embedding row)
                               (embedding_to_pgvector env v))
                       < cache_similarity_threshold (settings env)) \<longrightarrow>
            cache_search env query w
              = (Inr None,
                 w1\<lparr>trace := trace w1 @
                      [DbAcquire,
                       DbExecute (CacheSelect (embedding_to_pgvector env v)
                                    (cache_similarity_threshold (settings env))),
                       Log DEBUG (ustr ''Cache miss'')]\<rparr>)
          \<and> semantic_cache w1 = semantic_cache w)
       \<and> (\<forall>i u. semantic_cache (snd (cache_update_hit_count env i u))
                   = semantic_cache u
               \<or> semantic_cache (snd (cache_update_hit_count env i u))
                   = increment_hit_count i (semantic_cache u))"
proof (intro conjI allI impI, goal_cases)
  case (1 entry w')
  from cache_search_hit[OF 1] obtain v r where
    n: "cache_nearest env (embedding_to_pgvector env v)
              (cache_similarity_threshold (settings env)) (semantic_cache w) = Some r"
    and "ce_similarity entry = rec_similarity r" by blast
  with cache_nearest_Some[OF n] show ?case by simp
next
  case (2 entry w')
  from cache_search_hit[OF 2] obtain v w1 r new where
    e: "get_embedding env query w = (Inr v, w1)"
    and n: "cache_nearest env (embedding_to_pgvector env v)
              (cache_similarity_threshold (settings env)) (semantic_cache w) = Some r"
    and en: "ce_id entry = rec_id r" "ce_similarity entry = rec_similarity r"
         "ce_hit_count entry = rec_hit_count r + 1"
         "ce_query_text entry = rec_query_text r"
         "ce_response_text entry = rec_response_text r"
    and c: "semantic_cache w' = increment_hit_count (rec_id r) (semantic_cache w)"
    and k: "knowledge_base w' = knowledge_base w"
    and t: "trace w' = trace w @ new"
    and s: "db_statements new
             = [CacheSelect (embedding_to_pgvector env v) (cache_similarity_threshold (settings env)),
                CacheUpdateHitCount (rec_id r)]"
    by blast
  from cache_nearest_Some[OF n] obtain row where
    row: "row \<in> set (semantic_cache w)" and r: "r = cache_record_of env (embedding_to_pgvector env v) row"
    by blast
  from increment_hit_count_once[OF assms row] obtain before after where
    d: "semantic_cache w = before @ row # after"
       "increment_hit_count (cr_id row) (semantic_cache w)
           = before @ row\<lparr>cr_hit_count := cr_hit_count row + 1\<rparr> # after"
    by blast
  have id: "rec_id r = cr_id row" using r by (simp add: cache_record_of_def)
  from get_embedding_Inr[OF e] obtain rest where
    prov: "embeddings_create env (length (trace w)) (embedding_model (settings env)) query
               = Inr (v # rest)" by blast
  have "embeddings_create env (length (trace w)) (embedding_model (settings env)) query
                   = Inr (v # rest)
               \<and> get_embedding env query w = (Inr v, w1)
               \<and> semantic_cache w = before @ row # after
               \<and> semantic_cache w'
                   = before @ row\<lparr>cr_hit_count := cr_hit_count row + 1\<rparr> # after
               \<and> ce_id entry = cr_id row
               \<and> ce_query_text entry = cr_query_text row
               \<and> ce_response_text entry = cr_response_text row
               \<and> ce_hit_count entry = cr_hit_count row + 1
               \<and> ce_similarity entry
                   = fsub 1 (cosine_distance env (cr_query_embedding row)
                               (embedding_to_pgvector env v))
               \<and> knowledge_base w' = knowledge_base w
               \<and> trace w' = trace w @ new
               \<and> db_statements new
                   = [CacheSelect (embedding_to_pgvector env v)
                        (cache_similarity_threshold (settings env)),
                      CacheUpdateHitCount (cr_id row)]"
    using prov e d en c k t s id r by (simp add: cache_record_of_def)
  then show ?case by blast
next
  case (3 v w1)
  then have e: "get_embedding env query w = (Inr v, w1)"
    and f1: "db_fault env (length (trace w1)) = None"
    and f2: "db_fault env (Suc (length (trace w1))) = None"
    and lt: "\<forall>row \<in> set (semantic_cache w).
                     fsub 1 (cosine_distance env (cr_query_embedding row)
                           (embedding_to_pgvector env v))
                       < cache_similarity_threshold (settings env)"
    by blast+
  from lt have "cache_nearest env (embedding_to_pgvector env v)
                 (cache_similarity_threshold (settings env)) (semantic_cache w) = None"
    by (simp add: cache_nearest_None)
  from cache_search_miss[OF e f1 f2 this] show ?case .
next
  case (4 v w1)
  then have e: "get_embedding env query w = (Inr v, w1)" by blast
  from get_embedding_frame[OF e] show ?case by auto
next
  case (5 i u)
  show ?case
    by (auto simp: cache_update_hit_count_def db_execute_def external_def io_bind_def
             split: option.splits)
qed

lemmas cache_run_defs =
  cache_search_def cache_lookup_def cache_hit_def cache_outcome_def
  get_embedding_def embedding_to_pgvector_def get_connection_def
  cache_fetchrow_def cache_nearest_def cache_record_of_def cache_update_hit_count_def
  increment_hit_count_def load_sources_def db_execute_def external_def logger_def
  io_bind_def io_return_def io_raise_def io_lift_def py_error_def Let_def

lemma demo_cache_hit:
  "\<exists>w'. cache_search demo_env (ustr ''what is rag'') demo_cache_world
         = (Inr (Some \<lparr>ce_id = 2, ce_query_text = ustr ''what is rag'',
                        ce_response_text = ustr ''answer'', ce_sources = [], ce_hit_count = 6,
                        ce_similarity = 1, ce_created_at = \<lparr>wall = 0, tzinfo = None\<rparr>\<rparr>), w')
       \<and> semantic_cache w' = [demo_cache_row 1 (ustr ''[9.0,1.0]'') 4,
                               demo_cache_row 2 (ustr ''[11.0,1.0]'') 6]"
  by (simp add: cache_run_defs demo_defs demo_floats demo_cache_world_def demo_cache_row_def)

text \<open>A store with an entry at similarity 0 and one at similarity 1 to the query, with
  five hits; another query, which matches no entry; and the empty store.\<close>

theorem C4_witness:
  "distinct (map cr_id (semantic_cache demo_cache_world))
 \<and> (\<exists>entry w'. cache_search demo_env (ustr ''what is rag'') demo_cache_world
                  = (Inr (Some entry), w')
        \<and> cache_similarity_threshold (settings demo_env) \<le> ce_similarity entry
        \<and> ce_similarity entry = 1
        \<and> ce_id entry = 2 \<and> ce_hit_count entry = 6
        \<and> semantic_cache demo_cache_world
             = [demo_cache_row 1 (ustr ''[9.0,1.0]'') 4, demo_cache_row 2 (ustr ''[11.0,1.0]'') 5]
        \<and> semantic_cache w'
             = [demo_cache_row 1 (ustr ''[9.0,1.0]'') 4, demo_cache_row 2 (ustr ''[11.0,1.0]'') 6])
 \<and> fst (cache_search demo_env (ustr ''what is rag'') demo_world) = Inr None
 \<and> semantic_cache (snd (cache_search demo_env (ustr ''what is rag'') demo_world)) = []
 \<and> fst (cache_search demo_env (ustr ''why'') demo_cache_world) = Inr None"
proof -
  let ?q = "ustr ''what is rag''"
  have d: "distinct (map cr_id (semantic_cache demo_cache_world))"
    by (simp add: demo_cache_world_def demo_cache_row_def demo_world_def)
  have d0: "distinct (map cr_id (semantic_cache demo_world))" by (simp add: demo_world_def)
  from demo_cache_hit obtain w' where
    run: "cache_search demo_env ?q demo_cache_world
         = (Inr (Some \<lparr>ce_id = 2, ce_query_text = ustr ''what is rag'',
                        ce_response_text = ustr ''answer'', ce_sources = [], ce_hit_count = 6,
                        ce_similarity = 1, ce_created_at = \<lparr>wall = 0, tzinfo = None\<rparr>\<rparr>), w')"
    and c: "semantic_cache w' = [demo_cache_row 1 (ustr ''[9.0,1.0]'') 4,
                                 demo_cache_row 2 (ustr ''[11.0,1.0]'') 6]"
    by blast
  from C4_cache_hit_threshold_and_counter[OF d, of demo_env ?q] run
  have thr: "cache_similarity_threshold (settings demo_env)
               \<le> ce_similarity \<lparr>ce_id = 2, ce_query_text = ustr ''what is rag'',
                        ce_response_text = ustr ''answer'', ce_sources = [], ce_hit_count = 6,
                        ce_similarity = 1, ce_created_at = \<lparr>wall = 0, tzinfo = None\<rparr>\<rparr>"
    by blast
  have before: "semantic_cache demo_cache_world
             = [demo_cache_row 1 (ustr ''[9.0,1.0]'') 4, demo_cache_row 2 (ustr ''[11.0,1.0]'') 5]"
    by (simp add: demo_cache_world_def)
  let ?w1 = "demo_world\<lparr>trace := trace demo_world @
       [EmbeddingsCreate (embedding_model (settings demo_env)) ?q,
        Log DEBUG (ustr ''Generated embedding for text (length='' @ str_nat (length ?q) @ ustr '')'')]\<rparr>"
  have e: "get_embedding demo_env ?q demo_world = (Inr [real (length ?q), 1], ?w1)"
    by (simp add: get_embedding_def external_def io_bind_def logger_def io_return_def demo_env_def)
  have f: "db_fault demo_env (length (trace ?w1)) = None"
    "db_fault demo_env (Suc (length (trace ?w1))) = None"
    by (simp_all add: demo_env_def)
  have m: "\<forall>row \<in> set (semantic_cache demo_world).
                     fsub 1 (cosine_distance demo_env (cr_query_embedding row)
                           (embedding_to_pgvector demo_env [real (length ?q), 1]))
                       < cache_similarity_threshold (settings demo_env)"
    by (simp add: demo_world_def)
  from C4_cache_hit_threshold_and_counter[OF d0, of demo_env ?q] e f m
  have miss: "cache_search demo_env ?q demo_world
              = (Inr None,
                 ?w1\<lparr>trace := trace ?w1 @
                      [DbAcquire,
                       DbExecute (CacheSelect (embedding_to_pgvector demo_env [real (length ?q), 1])
                                    (cache_similarity_threshold (settings demo_env))),
                       Log DEBUG (ustr ''Cache miss'')]\<rparr>)"
    by blast
  have m1: "fst (cache_search demo_env ?q demo_world) = Inr None" using miss by simp
  have m2: "semantic_cache (snd (cache_search demo_env ?q demo_world)) = []"
    using miss by (simp add: demo_world_def)
  have m3: "fst (cache_search demo_env (ustr ''why'') demo_cache_world) = Inr None"
    by (simp add: cache_run_defs demo_defs demo_floats demo_cache_world_def demo_cache_row_def)
  from d run thr c before m1 m2 m3 show ?thesis by auto
qed

text \<open>
  Claim C4 as stated fails where it has the counter incremented atomically with the
  read. Two searches for the same query overlap: both lookups read the counter 5 before
  either update, both report 6, and the stored counter ends at 7. The second search
  returns an entry whose counter has gone from 5 to 7 between its read and its return.
\<close>

theorem C4_counterexample:
  "fst (overlapping_cache_searches demo_env (ustr ''what is rag'') (ustr ''what is rag'')
          demo_cache_world)
     = Inr (Some \<lparr>ce_id = 2, ce_query_text = ustr ''what is rag'',
                   ce_response_text = ustr ''answer'', ce_sources = [], ce_hit_count = 6,
                   ce_similarity = 1, ce_created_at = \<lparr>wall = 0, tzinfo = None\<rparr>\<rparr>,
            Some \<lparr>ce_id = 2, ce_query_text = ustr ''what is rag'',
                   ce_response_text = ustr ''answer'', ce_sources = [], ce_hit_count = 6,
                   ce_similarity = 1, ce_created_at = \<lparr>wall = 0, tzinfo = None\<rparr>\<rparr>)
 \<and> map cr_hit_count (semantic_cache demo_cache_world) = [4, 5]
 \<and> map cr_hit_count
      (semantic_cache (snd (overlapping_cache_searches demo_env (ustr ''what is rag'')
                              (ustr ''what is rag'') demo_cache_world))) = [4, 7]
 \<and> db_statements
      (trace (snd (overlapping_cache_searches demo_env (ustr ''what is rag'')
                     (ustr ''what is rag'') demo_cache_world)))
     = [CacheSelect (ustr ''[11.0,1.0]'') (double 0.95),
        CacheSelect (ustr ''[11.0,1.0]'') (double 0.95),
        CacheUpdateHitCount 2, CacheUpdateHitCount 2]"
  by (simp add: overlapping_cache_searches_def cache_run_defs demo_defs demo_floats
        demo_cache_world_def demo_cache_row_def)

lemma appends_refl: "appends w w []"
  unfolding appends_def by (intro exI[of _ "[]"] exI[of _ "clock_reads w"]) simp








lemma quiet_raise [intro!]: "quiet (io_raise e)"
  unfolding quiet_def by (auto simp: io_raise_def appends_refl)














































end
